theory Spec2Isabelle
  imports Main "HOL-Library.Sublist" "HOL-Library.List_Lexorder" "HOL-Library.Multiset"
begin

section \<open>Python strings\<close>

text \<open>
  A Python \<^verbatim>\<open>str\<close> is a sequence of Unicode code points, and \<^verbatim>\<open>len\<close>, slicing and
  \<^verbatim>\<open>find\<close> count code points. A character is therefore a natural number (its code
  point) and a string a list of them; \<open>py ''abc''\<close> is the string of an ASCII literal.
\<close>

type_synonym pychar = nat
type_synonym pystr = "pychar list"

abbreviation (input) py :: "string \<Rightarrow> pystr" where
  "py s \<equiv> map of_char s"

text \<open>
  \<^verbatim>\<open>str.isspace\<close>, which is also what \<^verbatim>\<open>\s\<close> matches in a \<^verbatim>\<open>str\<close> pattern and what
  \<^verbatim>\<open>str.strip()\<close> removes: tab to carriage return, the separators U+001C..U+001F, space,
  U+0085, U+00A0, U+1680, U+2000..U+200A, U+2028, U+2029, U+202F, U+205F, U+3000.
\<close>

definition is_space :: "pychar \<Rightarrow> bool" where
  "is_space c \<longleftrightarrow>
     (9 \<le> c \<and> c \<le> 13) \<or> (28 \<le> c \<and> c \<le> 32) \<or> c = 133 \<or> c = 160 \<or> c = 5760 \<or>
     (8192 \<le> c \<and> c \<le> 8202) \<or> c = 8232 \<or> c = 8233 \<or> c = 8239 \<or> c = 8287 \<or> c = 12288"

text \<open>
  \<^verbatim>\<open>\d\<close> in a \<^verbatim>\<open>str\<close> pattern matches every Unicode decimal digit (category Nd), not
  only \<^verbatim>\<open>0\<close>..\<^verbatim>\<open>9\<close>. The ranges are those of Unicode 14 (CPython 3.11).
\<close>

definition digit_ranges :: "(nat \<times> nat) list" where
  "digit_ranges =
    [(48, 57), (1632, 1641), (1776, 1785), (1984, 1993), (2406, 2415), (2534, 2543),
     (2662, 2671), (2790, 2799), (2918, 2927), (3046, 3055), (3174, 3183), (3302, 3311),
     (3430, 3439), (3558, 3567), (3664, 3673), (3792, 3801), (3872, 3881), (4160, 4169),
     (4240, 4249), (6112, 6121), (6160, 6169), (6470, 6479), (6608, 6617), (6784, 6793),
     (6800, 6809), (6992, 7001), (7088, 7097), (7232, 7241), (7248, 7257), (42528, 42537),
     (43216, 43225), (43264, 43273), (43472, 43481), (43504, 43513), (43600, 43609),
     (44016, 44025), (65296, 65305), (66720, 66729), (68912, 68921), (69734, 69743),
     (69872, 69881), (69942, 69951), (70096, 70105), (70384, 70393), (70736, 70745),
     (70864, 70873), (71248, 71257), (71360, 71369), (71472, 71481), (71904, 71913),
     (72016, 72025), (72784, 72793), (73040, 73049), (73120, 73129), (92768, 92777),
     (92864, 92873), (93008, 93017), (120782, 120831), (123200, 123209), (123632, 123641),
     (125264, 125273), (130032, 130041)]"

definition is_digit :: "pychar \<Rightarrow> bool" where
  "is_digit c \<longleftrightarrow> list_ex (\<lambda>(lo, hi). lo \<le> c \<and> c \<le> hi) digit_ranges"

text \<open>The character classes the patterns of the parser spell out.\<close>

definition ascii_digit :: "pychar \<Rightarrow> bool" where
  "ascii_digit c \<longleftrightarrow> 48 \<le> c \<and> c \<le> 57"

definition ascii_lower :: "pychar \<Rightarrow> bool" where
  "ascii_lower c \<longleftrightarrow> 97 \<le> c \<and> c \<le> 122"

definition in_chars :: "string \<Rightarrow> pychar \<Rightarrow> bool" where
  "in_chars cs c \<longleftrightarrow> c \<in> set (py cs)"

definition newline :: pychar where
  "newline = 10"

definition em_dash :: pychar where
  "em_dash = 8212"

definition en_dash :: pychar where
  "en_dash = 8211"

text \<open>
  \<^verbatim>\<open>str.lower()\<close>, as CPython 3.11 computes it from the Unicode 14 character database.
  A run \<open>(start, stop, step, low)\<close> of \<open>lower_runs\<close> says that the code points \<open>start\<close>,
  \<open>start + step\<close>, .. up to \<open>stop\<close> have the lower-case forms \<open>low\<close>, \<open>low + step\<close>, ..; a
  code point in no run is its own lower-case form.
\<close>

definition lower_runs :: "(nat \<times> nat \<times> nat \<times> nat) list" where
  "lower_runs =
    [(65, 90, 1, 97), (192, 214, 1, 224), (216, 222, 1, 248), (256, 302, 2, 257), (306, 310,
     2, 307), (313, 327, 2, 314), (330, 374, 2, 331), (376, 376, 1, 255), (377, 381, 2, 378),
     (385, 385, 1, 595), (386, 388, 2, 387), (390, 390, 1, 596), (391, 391, 1, 392), (393,
     394, 1, 598), (395, 395, 1, 396), (398, 398, 1, 477), (399, 399, 1, 601), (400, 400, 1,
     603), (401, 401, 1, 402), (403, 403, 1, 608), (404, 404, 1, 611), (406, 406, 1, 617),
     (407, 407, 1, 616), (408, 408, 1, 409), (412, 412, 1, 623), (413, 413, 1, 626), (415,
     415, 1, 629), (416, 420, 2, 417), (422, 422, 1, 640), (423, 423, 1, 424), (425, 425, 1,
     643), (428, 428, 1, 429), (430, 430, 1, 648), (431, 431, 1, 432), (433, 434, 1, 650),
     (435, 437, 2, 436), (439, 439, 1, 658), (440, 440, 1, 441), (444, 444, 1, 445), (452,
     452, 1, 454), (453, 453, 1, 454), (455, 455, 1, 457), (456, 456, 1, 457), (458, 458, 1,
     460), (459, 475, 2, 460), (478, 494, 2, 479), (497, 497, 1, 499), (498, 500, 2, 499),
     (502, 502, 1, 405), (503, 503, 1, 447), (504, 542, 2, 505), (544, 544, 1, 414), (546,
     562, 2, 547), (570, 570, 1, 11365), (571, 571, 1, 572), (573, 573, 1, 410), (574, 574,
     1, 11366), (577, 577, 1, 578), (579, 579, 1, 384), (580, 580, 1, 649), (581, 581, 1,
     652), (582, 590, 2, 583), (880, 882, 2, 881), (886, 886, 1, 887), (895, 895, 1, 1011),
     (902, 902, 1, 940), (904, 906, 1, 941), (908, 908, 1, 972), (910, 911, 1, 973), (913,
     929, 1, 945), (931, 939, 1, 963), (975, 975, 1, 983), (984, 1006, 2, 985), (1012, 1012,
     1, 952), (1015, 1015, 1, 1016), (1017, 1017, 1, 1010), (1018, 1018, 1, 1019), (1021,
     1023, 1, 891), (1024, 1039, 1, 1104), (1040, 1071, 1, 1072), (1120, 1152, 2, 1121),
     (1162, 1214, 2, 1163), (1216, 1216, 1, 1231), (1217, 1229, 2, 1218), (1232, 1326, 2,
     1233), (1329, 1366, 1, 1377), (4256, 4293, 1, 11520), (4295, 4295, 1, 11559), (4301,
     4301, 1, 11565), (5024, 5103, 1, 43888), (5104, 5109, 1, 5112), (7312, 7354, 1, 4304),
     (7357, 7359, 1, 4349), (7680, 7828, 2, 7681), (7838, 7838, 1, 223), (7840, 7934, 2,
     7841), (7944, 7951, 1, 7936), (7960, 7965, 1, 7952), (7976, 7983, 1, 7968), (7992, 7999,
     1, 7984), (8008, 8013, 1, 8000), (8025, 8031, 2, 8017), (8040, 8047, 1, 8032), (8072,
     8079, 1, 8064), (8088, 8095, 1, 8080), (8104, 8111, 1, 8096), (8120, 8121, 1, 8112),
     (8122, 8123, 1, 8048), (8124, 8124, 1, 8115), (8136, 8139, 1, 8050), (8140, 8140, 1,
     8131), (8152, 8153, 1, 8144), (8154, 8155, 1, 8054), (8168, 8169, 1, 8160), (8170, 8171,
     1, 8058), (8172, 8172, 1, 8165), (8184, 8185, 1, 8056), (8186, 8187, 1, 8060), (8188,
     8188, 1, 8179), (8486, 8486, 1, 969), (8490, 8490, 1, 107), (8491, 8491, 1, 229), (8498,
     8498, 1, 8526), (8544, 8559, 1, 8560), (8579, 8579, 1, 8580), (9398, 9423, 1, 9424),
     (11264, 11311, 1, 11312), (11360, 11360, 1, 11361), (11362, 11362, 1, 619), (11363,
     11363, 1, 7549), (11364, 11364, 1, 637), (11367, 11371, 2, 11368), (11373, 11373, 1,
     593), (11374, 11374, 1, 625), (11375, 11375, 1, 592), (11376, 11376, 1, 594), (11378,
     11378, 1, 11379), (11381, 11381, 1, 11382), (11390, 11391, 1, 575), (11392, 11490, 2,
     11393), (11499, 11501, 2, 11500), (11506, 11506, 1, 11507), (42560, 42604, 2, 42561),
     (42624, 42650, 2, 42625), (42786, 42798, 2, 42787), (42802, 42862, 2, 42803), (42873,
     42875, 2, 42874), (42877, 42877, 1, 7545), (42878, 42886, 2, 42879), (42891, 42891, 1,
     42892), (42893, 42893, 1, 613), (42896, 42898, 2, 42897), (42902, 42920, 2, 42903),
     (42922, 42922, 1, 614), (42923, 42923, 1, 604), (42924, 42924, 1, 609), (42925, 42925,
     1, 620), (42926, 42926, 1, 618), (42928, 42928, 1, 670), (42929, 42929, 1, 647), (42930,
     42930, 1, 669), (42931, 42931, 1, 43859), (42932, 42946, 2, 42933), (42948, 42948, 1,
     42900), (42949, 42949, 1, 642), (42950, 42950, 1, 7566), (42951, 42953, 2, 42952),
     (42960, 42960, 1, 42961), (42966, 42968, 2, 42967), (42997, 42997, 1, 42998), (65313,
     65338, 1, 65345), (66560, 66599, 1, 66600), (66736, 66771, 1, 66776), (66928, 66938, 1,
     66967), (66940, 66954, 1, 66979), (66956, 66962, 1, 66995), (66964, 66965, 1, 67003),
     (68736, 68786, 1, 68800), (71840, 71871, 1, 71872), (93760, 93791, 1, 93792), (125184,
     125217, 1, 125218)]"

definition to_lower :: "pychar \<Rightarrow> pychar" where
  "to_lower c =
     (case find (\<lambda>(start, stop, step, low). start \<le> c \<and> c \<le> stop \<and> (c - start) mod step = 0)
             lower_runs of
        None \<Rightarrow> c
      | Some (start, stop, step, low) \<Rightarrow> low + (c - start))"

text \<open>
  The full mapping differs from the simple one at U+0130 only, the capital I with a dot
  above, which becomes the two code points U+0069 U+0307.
\<close>

definition to_lower_full :: "pychar \<Rightarrow> pystr" where
  "to_lower_full c = (if c = 304 then [105, 775] else [to_lower c])"

text \<open>The properties Cased and Case_Ignorable of a code point.\<close>

definition cased_ranges :: "(nat \<times> nat) list" where
  "cased_ranges =
    [(65, 90), (97, 122), (170, 170), (181, 181), (186, 186), (192, 214), (216, 246), (248,
     442), (444, 447), (452, 659), (661, 696), (704, 705), (736, 740), (837, 837), (880,
     883), (886, 887), (890, 893), (895, 895), (902, 902), (904, 906), (908, 908), (910,
     929), (931, 1013), (1015, 1153), (1162, 1327), (1329, 1366), (1376, 1416), (4256, 4293),
     (4295, 4295), (4301, 4301), (4304, 4346), (4349, 4351), (5024, 5109), (5112, 5117),
     (7296, 7304), (7312, 7354), (7357, 7359), (7424, 7615), (7680, 7957), (7960, 7965),
     (7968, 8005), (8008, 8013), (8016, 8023), (8025, 8025), (8027, 8027), (8029, 8029),
     (8031, 8061), (8064, 8116), (8118, 8124), (8126, 8126), (8130, 8132), (8134, 8140),
     (8144, 8147), (8150, 8155), (8160, 8172), (8178, 8180), (8182, 8188), (8305, 8305),
     (8319, 8319), (8336, 8348), (8450, 8450), (8455, 8455), (8458, 8467), (8469, 8469),
     (8473, 8477), (8484, 8484), (8486, 8486), (8488, 8488), (8490, 8493), (8495, 8500),
     (8505, 8505), (8508, 8511), (8517, 8521), (8526, 8526), (8544, 8575), (8579, 8580),
     (9398, 9449), (11264, 11492), (11499, 11502), (11506, 11507), (11520, 11557), (11559,
     11559), (11565, 11565), (42560, 42605), (42624, 42653), (42786, 42887), (42891, 42894),
     (42896, 42954), (42960, 42961), (42963, 42963), (42965, 42969), (42997, 42998), (43000,
     43002), (43824, 43866), (43868, 43880), (43888, 43967), (64256, 64262), (64275, 64279),
     (65313, 65338), (65345, 65370), (66560, 66639), (66736, 66771), (66776, 66811), (66928,
     66938), (66940, 66954), (66956, 66962), (66964, 66965), (66967, 66977), (66979, 66993),
     (66995, 67001), (67003, 67004), (67456, 67456), (67459, 67461), (67463, 67504), (67506,
     67514), (68736, 68786), (68800, 68850), (71840, 71903), (93760, 93823), (119808,
     119892), (119894, 119964), (119966, 119967), (119970, 119970), (119973, 119974),
     (119977, 119980), (119982, 119993), (119995, 119995), (119997, 120003), (120005,
     120069), (120071, 120074), (120077, 120084), (120086, 120092), (120094, 120121),
     (120123, 120126), (120128, 120132), (120134, 120134), (120138, 120144), (120146,
     120485), (120488, 120512), (120514, 120538), (120540, 120570), (120572, 120596),
     (120598, 120628), (120630, 120654), (120656, 120686), (120688, 120712), (120714,
     120744), (120746, 120770), (120772, 120779), (122624, 122633), (122635, 122654),
     (125184, 125251), (127280, 127305), (127312, 127337), (127344, 127369)]"

definition cased :: "pychar \<Rightarrow> bool" where
  "cased c \<longleftrightarrow> list_ex (\<lambda>(lo, hi). lo \<le> c \<and> c \<le> hi) cased_ranges"

definition case_ignorable_ranges :: "(nat \<times> nat) list" where
  "case_ignorable_ranges =
    [(39, 39), (46, 46), (58, 58), (94, 94), (96, 96), (168, 168), (173, 173), (175, 175),
     (180, 180), (183, 184), (688, 879), (884, 885), (890, 890), (900, 901), (903, 903),
     (1155, 1161), (1369, 1369), (1375, 1375), (1425, 1469), (1471, 1471), (1473, 1474),
     (1476, 1477), (1479, 1479), (1524, 1524), (1536, 1541), (1552, 1562), (1564, 1564),
     (1600, 1600), (1611, 1631), (1648, 1648), (1750, 1757), (1759, 1768), (1770, 1773),
     (1807, 1807), (1809, 1809), (1840, 1866), (1958, 1968), (2027, 2037), (2042, 2042),
     (2045, 2045), (2070, 2093), (2137, 2139), (2184, 2184), (2192, 2193), (2200, 2207),
     (2249, 2306), (2362, 2362), (2364, 2364), (2369, 2376), (2381, 2381), (2385, 2391),
     (2402, 2403), (2417, 2417), (2433, 2433), (2492, 2492), (2497, 2500), (2509, 2509),
     (2530, 2531), (2558, 2558), (2561, 2562), (2620, 2620), (2625, 2626), (2631, 2632),
     (2635, 2637), (2641, 2641), (2672, 2673), (2677, 2677), (2689, 2690), (2748, 2748),
     (2753, 2757), (2759, 2760), (2765, 2765), (2786, 2787), (2810, 2815), (2817, 2817),
     (2876, 2876), (2879, 2879), (2881, 2884), (2893, 2893), (2901, 2902), (2914, 2915),
     (2946, 2946), (3008, 3008), (3021, 3021), (3072, 3072), (3076, 3076), (3132, 3132),
     (3134, 3136), (3142, 3144), (3146, 3149), (3157, 3158), (3170, 3171), (3201, 3201),
     (3260, 3260), (3263, 3263), (3270, 3270), (3276, 3277), (3298, 3299), (3328, 3329),
     (3387, 3388), (3393, 3396), (3405, 3405), (3426, 3427), (3457, 3457), (3530, 3530),
     (3538, 3540), (3542, 3542), (3633, 3633), (3636, 3642), (3654, 3662), (3761, 3761),
     (3764, 3772), (3782, 3782), (3784, 3789), (3864, 3865), (3893, 3893), (3895, 3895),
     (3897, 3897), (3953, 3966), (3968, 3972), (3974, 3975), (3981, 3991), (3993, 4028),
     (4038, 4038), (4141, 4144), (4146, 4151), (4153, 4154), (4157, 4158), (4184, 4185),
     (4190, 4192), (4209, 4212), (4226, 4226), (4229, 4230), (4237, 4237), (4253, 4253),
     (4348, 4348), (4957, 4959), (5906, 5908), (5938, 5939), (5970, 5971), (6002, 6003),
     (6068, 6069), (6071, 6077), (6086, 6086), (6089, 6099), (6103, 6103), (6109, 6109),
     (6155, 6159), (6211, 6211), (6277, 6278), (6313, 6313), (6432, 6434), (6439, 6440),
     (6450, 6450), (6457, 6459), (6679, 6680), (6683, 6683), (6742, 6742), (6744, 6750),
     (6752, 6752), (6754, 6754), (6757, 6764), (6771, 6780), (6783, 6783), (6823, 6823),
     (6832, 6862), (6912, 6915), (6964, 6964), (6966, 6970), (6972, 6972), (6978, 6978),
     (7019, 7027), (7040, 7041), (7074, 7077), (7080, 7081), (7083, 7085), (7142, 7142),
     (7144, 7145), (7149, 7149), (7151, 7153), (7212, 7219), (7222, 7223), (7288, 7293),
     (7376, 7378), (7380, 7392), (7394, 7400), (7405, 7405), (7412, 7412), (7416, 7417),
     (7468, 7530), (7544, 7544), (7579, 7679), (8125, 8125), (8127, 8129), (8141, 8143),
     (8157, 8159), (8173, 8175), (8189, 8190), (8203, 8207), (8216, 8217), (8228, 8228),
     (8231, 8231), (8234, 8238), (8288, 8292), (8294, 8303), (8305, 8305), (8319, 8319),
     (8336, 8348), (8400, 8432), (11388, 11389), (11503, 11505), (11631, 11631), (11647,
     11647), (11744, 11775), (11823, 11823), (12293, 12293), (12330, 12333), (12337, 12341),
     (12347, 12347), (12441, 12446), (12540, 12542), (40981, 40981), (42232, 42237), (42508,
     42508), (42607, 42610), (42612, 42621), (42623, 42623), (42652, 42655), (42736, 42737),
     (42752, 42785), (42864, 42864), (42888, 42890), (42994, 42996), (43000, 43001), (43010,
     43010), (43014, 43014), (43019, 43019), (43045, 43046), (43052, 43052), (43204, 43205),
     (43232, 43249), (43263, 43263), (43302, 43309), (43335, 43345), (43392, 43394), (43443,
     43443), (43446, 43449), (43452, 43453), (43471, 43471), (43493, 43494), (43561, 43566),
     (43569, 43570), (43573, 43574), (43587, 43587), (43596, 43596), (43632, 43632), (43644,
     43644), (43696, 43696), (43698, 43700), (43703, 43704), (43710, 43711), (43713, 43713),
     (43741, 43741), (43756, 43757), (43763, 43764), (43766, 43766), (43867, 43871), (43881,
     43883), (44005, 44005), (44008, 44008), (44013, 44013), (64286, 64286), (64434, 64450),
     (65024, 65039), (65043, 65043), (65056, 65071), (65106, 65106), (65109, 65109), (65279,
     65279), (65287, 65287), (65294, 65294), (65306, 65306), (65342, 65342), (65344, 65344),
     (65392, 65392), (65438, 65439), (65507, 65507), (65529, 65531), (66045, 66045), (66272,
     66272), (66422, 66426), (67456, 67461), (67463, 67504), (67506, 67514), (68097, 68099),
     (68101, 68102), (68108, 68111), (68152, 68154), (68159, 68159), (68325, 68326), (68900,
     68903), (69291, 69292), (69446, 69456), (69506, 69509), (69633, 69633), (69688, 69702),
     (69744, 69744), (69747, 69748), (69759, 69761), (69811, 69814), (69817, 69818), (69821,
     69821), (69826, 69826), (69837, 69837), (69888, 69890), (69927, 69931), (69933, 69940),
     (70003, 70003), (70016, 70017), (70070, 70078), (70089, 70092), (70095, 70095), (70191,
     70193), (70196, 70196), (70198, 70199), (70206, 70206), (70367, 70367), (70371, 70378),
     (70400, 70401), (70459, 70460), (70464, 70464), (70502, 70508), (70512, 70516), (70712,
     70719), (70722, 70724), (70726, 70726), (70750, 70750), (70835, 70840), (70842, 70842),
     (70847, 70848), (70850, 70851), (71090, 71093), (71100, 71101), (71103, 71104), (71132,
     71133), (71219, 71226), (71229, 71229), (71231, 71232), (71339, 71339), (71341, 71341),
     (71344, 71349), (71351, 71351), (71453, 71455), (71458, 71461), (71463, 71467), (71727,
     71735), (71737, 71738), (71995, 71996), (71998, 71998), (72003, 72003), (72148, 72151),
     (72154, 72155), (72160, 72160), (72193, 72202), (72243, 72248), (72251, 72254), (72263,
     72263), (72273, 72278), (72281, 72283), (72330, 72342), (72344, 72345), (72752, 72758),
     (72760, 72765), (72767, 72767), (72850, 72871), (72874, 72880), (72882, 72883), (72885,
     72886), (73009, 73014), (73018, 73018), (73020, 73021), (73023, 73029), (73031, 73031),
     (73104, 73105), (73109, 73109), (73111, 73111), (73459, 73460), (78896, 78904), (92912,
     92916), (92976, 92982), (92992, 92995), (94031, 94031), (94095, 94111), (94176, 94177),
     (94179, 94180), (110576, 110579), (110581, 110587), (110589, 110590), (113821, 113822),
     (113824, 113827), (118528, 118573), (118576, 118598), (119143, 119145), (119155,
     119170), (119173, 119179), (119210, 119213), (119362, 119364), (121344, 121398),
     (121403, 121452), (121461, 121461), (121476, 121476), (121499, 121503), (121505,
     121519), (122880, 122886), (122888, 122904), (122907, 122913), (122915, 122916),
     (122918, 122922), (123184, 123197), (123566, 123566), (123628, 123631), (125136,
     125142), (125252, 125259), (127995, 127999), (917505, 917505), (917536, 917631),
     (917760, 917999)]"

definition case_ignorable :: "pychar \<Rightarrow> bool" where
  "case_ignorable c \<longleftrightarrow> list_ex (\<lambda>(lo, hi). lo \<le> c \<and> c \<le> hi) case_ignorable_ranges"

text \<open>
  The capital sigma U+03A3 becomes the final sigma U+03C2 when the nearest character
  before it that is not case-ignorable is cased and the nearest such character after it
  is not (or there is none), and the sigma U+03C3 otherwise. Both are looked for in the
  string as it was given; \<open>seen\<close> holds the characters before the sigma, the nearest
  first, and \<open>rest\<close> those after it.
\<close>

definition handle_capital_sigma :: "pystr \<Rightarrow> pystr \<Rightarrow> pychar" where
  "handle_capital_sigma seen rest =
     (if (case find (\<lambda>c. \<not> case_ignorable c) seen of None \<Rightarrow> False | Some c \<Rightarrow> cased c) \<and>
         (case find (\<lambda>c. \<not> case_ignorable c) rest of None \<Rightarrow> True | Some c \<Rightarrow> \<not> cased c)
      then 962 else 963)"

definition lower_ucs4 :: "pystr \<Rightarrow> pychar \<Rightarrow> pystr \<Rightarrow> pystr" where
  "lower_ucs4 seen c rest =
     (if c = 931 then [handle_capital_sigma seen rest] else to_lower_full c)"

fun do_lower :: "pystr \<Rightarrow> pystr \<Rightarrow> pystr" where
  "do_lower seen [] = []"
| "do_lower seen (c # cs) = lower_ucs4 seen c cs @ do_lower (c # seen) cs"

definition lower :: "pystr \<Rightarrow> pystr" where
  "lower s = do_lower [] s"

text \<open>\<^verbatim>\<open>s.strip()\<close>: whitespace removed at both ends.\<close>

definition strip :: "pystr \<Rightarrow> pystr" where
  "strip s = rev (dropWhile is_space (rev (dropWhile is_space s)))"

text \<open>
  \<^verbatim>\<open>s.find(sub)\<close>: the least offset at which \<open>sub\<close> occurs in \<open>s\<close>, Python's \<open>-1\<close>
  being \<open>None\<close>; and \<^verbatim>\<open>sub in s\<close>.
\<close>

fun str_find :: "pystr \<Rightarrow> pystr \<Rightarrow> nat option" where
  "str_find [] sub = (if sub = [] then Some 0 else None)"
| "str_find (c # cs) sub =
     (if prefix sub (c # cs) then Some 0 else map_option Suc (str_find cs sub))"

definition str_in :: "pystr \<Rightarrow> pystr \<Rightarrow> bool" where
  "str_in sub s \<longleftrightarrow> str_find s sub \<noteq> None"

text \<open>
  \<^verbatim>\<open>s.replace(old, new)\<close> for a non-empty \<open>old\<close>: the occurrences are replaced from left to
  right and do not overlap.
\<close>

function str_replace :: "pystr \<Rightarrow> pystr \<Rightarrow> pystr \<Rightarrow> pystr" where
  "str_replace old new [] = []"
| "str_replace old new (c # cs) =
     (if old \<noteq> [] \<and> prefix old (c # cs)
      then new @ str_replace old new (drop (length old) (c # cs))
      else c # str_replace old new cs)"
  by pat_completeness auto
termination
  by (relation "measure (\<lambda>(old, new, s). length s)") auto

section \<open>Regular expressions\<close>

text \<open>
  The patterns of the parser quantify over single character classes only, so the
  backtracking matcher of \<^verbatim>\<open>re\<close> is a handful of combinators in continuation-passing
  style: each takes the continuation \<open>k\<close> that matches the rest of the pattern on the rest
  of the input, and tries its alternatives in the order \<^verbatim>\<open>re\<close> does. A greedy \<open>+\<close> first
  tries to take one more character and gives one back when the continuation fails; a
  lazy \<open>+?\<close> first tries the continuation and takes one more character when it fails.
\<close>

definition lit :: "pystr \<Rightarrow> (pystr \<Rightarrow> 'r option) \<Rightarrow> pystr \<Rightarrow> 'r option" where
  "lit l k s = (if prefix l s then k (drop (length l) s) else None)"

definition cls :: "(pychar \<Rightarrow> bool) \<Rightarrow> (pystr \<Rightarrow> 'r option) \<Rightarrow> pystr \<Rightarrow> 'r option" where
  "cls P k s = (case s of [] \<Rightarrow> None | c # cs \<Rightarrow> if P c then k cs else None)"

fun plus_g :: "(pychar \<Rightarrow> bool) \<Rightarrow> (pystr \<Rightarrow> 'r option) \<Rightarrow> pystr \<Rightarrow> 'r option" where
  "plus_g P k [] = None"
| "plus_g P k (c # cs) =
     (if P c then (case plus_g P k cs of Some r \<Rightarrow> Some r | None \<Rightarrow> k cs) else None)"

definition star_g :: "(pychar \<Rightarrow> bool) \<Rightarrow> (pystr \<Rightarrow> 'r option) \<Rightarrow> pystr \<Rightarrow> 'r option" where
  "star_g P k s = (case plus_g P k s of Some r \<Rightarrow> Some r | None \<Rightarrow> k s)"

fun plus_l :: "(pychar \<Rightarrow> bool) \<Rightarrow> (pystr \<Rightarrow> 'r option) \<Rightarrow> pystr \<Rightarrow> 'r option" where
  "plus_l P k [] = None"
| "plus_l P k (c # cs) =
     (if P c then (case k cs of Some r \<Rightarrow> Some r | None \<Rightarrow> plus_l P k cs) else None)"

text \<open>
  A capturing group around the fragment \<open>m\<close>: the continuation receives the text the
  fragment consumed. An optional capturing group \<^verbatim>\<open>(?:..(..)..)?\<close> first tries the
  fragment and, when the whole rest fails with it, goes on without it and without a
  capture.
\<close>

definition captured :: "pystr \<Rightarrow> pystr \<Rightarrow> pystr" where
  "captured s s' = take (length s - length s') s"

definition group :: "((pystr \<Rightarrow> 'r option) \<Rightarrow> pystr \<Rightarrow> 'r option) \<Rightarrow>
    (pystr \<Rightarrow> pystr \<Rightarrow> 'r option) \<Rightarrow> pystr \<Rightarrow> 'r option" where
  "group m k s = m (\<lambda>s'. k (captured s s') s') s"

definition opt_group :: "((pystr \<Rightarrow> pystr \<Rightarrow> 'r option) \<Rightarrow> pystr \<Rightarrow> 'r option) \<Rightarrow>
    (pystr option \<Rightarrow> pystr \<Rightarrow> 'r option) \<Rightarrow> pystr \<Rightarrow> 'r option" where
  "opt_group m k s = (case m (\<lambda>g. k (Some g)) s of Some r \<Rightarrow> Some r | None \<Rightarrow> k None s)"

definition lookahead :: "(pystr \<Rightarrow> bool) \<Rightarrow> (pystr \<Rightarrow> 'r option) \<Rightarrow> pystr \<Rightarrow> 'r option" where
  "lookahead la k s = (if la s then k s else None)"

text \<open>\<^verbatim>\<open>$\<close> without \<^verbatim>\<open>re.MULTILINE\<close>: the end of the string, or just before a final newline.\<close>

definition at_end :: "pystr \<Rightarrow> bool" where
  "at_end s \<longleftrightarrow> s = [] \<or> s = [newline]"

text \<open>
  A compiled pattern is a function from the input at the position tried to the groups
  of the match and the input after it. \<^verbatim>\<open>re.finditer\<close> tries every position from left to
  right and resumes after each match; \<^verbatim>\<open>re.sub\<close> does the same and copies what lies between
  the matches. No pattern of the parser matches the empty string, so a match that
  consumes nothing is treated as no match.
\<close>

type_synonym 'm pattern = "pystr \<Rightarrow> ('m \<times> pystr) option"

function finditer :: "'m pattern \<Rightarrow> nat \<Rightarrow> pystr \<Rightarrow> (nat \<times> 'm) list" where
  "finditer m pos [] = []"
| "finditer m pos (c # cs) =
     (case m (c # cs) of
        None \<Rightarrow> finditer m (Suc pos) cs
      | Some (g, rest) \<Rightarrow>
          if length rest < length (c # cs)
          then (pos, g) # finditer m (pos + (length (c # cs) - length rest)) rest
          else finditer m (Suc pos) cs)"
  by pat_completeness auto
termination
  by (relation "measure (\<lambda>(m, pos, s). length s)") auto

function re_sub :: "'m pattern \<Rightarrow> ('m \<Rightarrow> pystr) \<Rightarrow> pystr \<Rightarrow> pystr" where
  "re_sub m repl [] = []"
| "re_sub m repl (c # cs) =
     (case m (c # cs) of
        None \<Rightarrow> c # re_sub m repl cs
      | Some (g, rest) \<Rightarrow>
          if length rest < length (c # cs)
          then repl g @ re_sub m repl rest
          else c # re_sub m repl cs)"
  by pat_completeness auto
termination
  by (relation "measure (\<lambda>(m, repl, s). length s)") auto

section \<open>TextNormalizer\<close>

text \<open>\<^verbatim>\<open>\s+\<close>\<close>

definition whitespace_run :: "unit pattern" where
  "whitespace_run = plus_g is_space (\<lambda>s. Some ((), s))"

text \<open>\<^verbatim>\<open>Article\s+(\d+)\s*[..]\s*\<close>, the class \<^verbatim>\<open>[..]\<close> holding the em dash, the en
  dash and the hyphen; the match carries group 1.\<close>

definition header_dash :: "pystr pattern" where
  "header_dash =
     lit (py ''Article'') (plus_g is_space (group (plus_g is_digit) (\<lambda>num.
       star_g is_space (cls (\<lambda>c. c = em_dash \<or> c = en_dash \<or> c = of_char CHR ''-'')
         (star_g is_space (\<lambda>s. Some (num, s)))))))"

definition preprocess_text :: "pystr \<Rightarrow> pystr" where
  "preprocess_text text0 =
     (let text1 = re_sub whitespace_run (\<lambda>_. py '' '') text0;
          text2 = str_replace (py ''|'') (py ''I'') text1;
          text3 = str_replace (py ''l1'') (py ''h'') text2;
          text4 = str_replace [em_dash] (py ''-'') text3;
          text5 = str_replace [en_dash] (py ''-'') text4
      in re_sub header_dash (\<lambda>num. py ''Article '' @ num @ py '' - '') text5)"

section \<open>The parsed model\<close>

text \<open>
  The dictionaries the parser builds. A key that only some of the dictionaries of a kind
  carry (\<^verbatim>\<open>'subparagraph'\<close>) is an optional field; the keys \<^verbatim>\<open>'paragraphs'\<close>,
  \<^verbatim>\<open>'requirements'\<close> and \<^verbatim>\<open>'entities'\<close>, which later stages add to an article, are
  fields that start empty.
\<close>

record subsubpara =
  ssp_number :: pystr
  ssp_text :: pystr

record subpara =
  sp_letter :: pystr
  sp_text :: pystr
  sp_subsubparagraphs :: "subsubpara list"

record para =
  p_number :: pystr
  p_text :: pystr
  p_subparagraphs :: "subpara list"

record requirement =
  rq_paragraph :: pystr
  rq_subparagraph :: "pystr option"
  rq_text :: pystr
  rq_is_obligation :: bool
  rq_is_right :: bool
  rq_is_time_requirement :: bool

record time_requirement =
  tr_article :: pystr
  tr_paragraph :: pystr
  tr_subparagraph :: "pystr option"
  tr_text :: pystr

record entity =
  en_text :: pystr
  en_label :: pystr
  en_start :: nat
  en_end :: nat

record article =
  a_number :: pystr
  a_title :: pystr
  a_content :: pystr
  a_chapter :: "(pystr \<times> pystr) option"
  a_section :: "(pystr \<times> pystr) option"
  a_paragraphs :: "para list"
  a_requirements :: "requirement list"
  a_entities :: "entity list"

record reference =
  ref_article :: pystr
  ref_paragraph :: "pystr option"

text \<open>
  The external language model: for a text, the texts of its sentences
  (\<^verbatim>\<open>[s.text for s in nlp(text).sents]\<close>) and its named entities.
\<close>

record nlp =
  sents :: "pystr \<Rightarrow> pystr list"
  ents :: "pystr \<Rightarrow> entity list"

section \<open>StructuralSegmenter and ArticleExtractor\<close>

text \<open>\<^verbatim>\<open>CHAPTER\s+([IVX]+)\s+([^\n]+)\<close>\<close>

definition chapter_pattern :: "(pystr \<times> pystr) pattern" where
  "chapter_pattern =
     lit (py ''CHAPTER'') (plus_g is_space (group (plus_g (in_chars ''IVX'')) (\<lambda>g1.
       plus_g is_space (group (plus_g (\<lambda>c. c \<noteq> newline)) (\<lambda>g2 s. Some ((g1, g2), s))))))"

text \<open>\<^verbatim>\<open>Section\s+(\d+)[:\s]+([^\n]+)\<close>\<close>

definition section_pattern :: "(pystr \<times> pystr) pattern" where
  "section_pattern =
     lit (py ''Section'') (plus_g is_space (group (plus_g is_digit) (\<lambda>g1.
       plus_g (\<lambda>c. c = of_char CHR '':'' \<or> is_space c)
         (group (plus_g (\<lambda>c. c \<noteq> newline)) (\<lambda>g2 s. Some ((g1, g2), s))))))"

text \<open>\<^verbatim>\<open>Article\s+(\d+)\s*-\s*([^\n]+)\<close>\<close>

definition article_pattern :: "(pystr \<times> pystr) pattern" where
  "article_pattern =
     lit (py ''Article'') (plus_g is_space (group (plus_g is_digit) (\<lambda>g1.
       star_g is_space (lit (py ''-'') (star_g is_space
         (group (plus_g (\<lambda>c. c \<noteq> newline)) (\<lambda>g2 s. Some ((g1, g2), s))))))))"

text \<open>
  An entry of \<^verbatim>\<open>chapter_positions\<close> or \<^verbatim>\<open>section_positions\<close>. The end is \<^verbatim>\<open>None\<close> when the
  entry is made and is filled in by the loop that follows: the start of the next entry,
  and the length of the text for the last one.
\<close>

record position =
  pos_number :: pystr
  pos_title :: pystr
  pos_start :: nat
  pos_end :: "nat option"

definition positions :: "(pystr \<times> pystr) pattern \<Rightarrow> pystr \<Rightarrow> position list" where
  "positions pat text =
     map (\<lambda>(start, (g1, g2)).
            \<lparr>pos_number = g1, pos_title = strip g2, pos_start = start, pos_end = None\<rparr>)
         (finditer pat 0 text)"

fun set_ends :: "nat \<Rightarrow> position list \<Rightarrow> position list" where
  "set_ends n [] = []"
| "set_ends n [p] = [p\<lparr>pos_end := Some n\<rparr>]"
| "set_ends n (p # q # ps) = p\<lparr>pos_end := Some (pos_start q)\<rparr> # set_ends n (q # ps)"

text \<open>
  The loop over the positions that stops at the first one holding the offset:
  \<^verbatim>\<open>if prev_start >= p['start'] and (p['end'] is None or prev_start < p['end'])\<close>.
\<close>

fun enclosing :: "nat \<Rightarrow> position list \<Rightarrow> (pystr \<times> pystr) option" where
  "enclosing off [] = None"
| "enclosing off (p # ps) =
     (if pos_start p \<le> off \<and> (case pos_end p of None \<Rightarrow> True | Some e \<Rightarrow> off < e)
      then Some (pos_number p, pos_title p)
      else enclosing off ps)"

text \<open>\<^verbatim>\<open>text[a:b]\<close> for \<open>0 \<le> a\<close> and \<open>0 \<le> b\<close>.\<close>

definition slice :: "nat \<Rightarrow> nat \<Rightarrow> pystr \<Rightarrow> pystr" where
  "slice a b s = take (b - a) (drop a s)"

definition make_article :: "position list \<Rightarrow> position list \<Rightarrow> nat \<Rightarrow> pystr \<Rightarrow> pystr \<Rightarrow> pystr \<Rightarrow>
    article" where
  "make_article chapter_positions section_positions prev_start prev_number prev_title content =
     \<lparr>a_number = prev_number, a_title = prev_title, a_content = content,
      a_chapter = enclosing prev_start chapter_positions,
      a_section = enclosing prev_start section_positions,
      a_paragraphs = [], a_requirements = [], a_entities = []\<rparr>"

text \<open>
  The loop over the article headers. \<open>prev\<close> holds \<^verbatim>\<open>prev_start\<close>, \<^verbatim>\<open>prev_number\<close> and
  \<^verbatim>\<open>prev_title\<close>, \<^verbatim>\<open>None\<close> before the first header; the last equation is the code after
  the loop, which closes the last article at the end of the text.
\<close>

fun article_loop :: "pystr \<Rightarrow> position list \<Rightarrow> position list \<Rightarrow> (nat \<times> pystr \<times> pystr) option \<Rightarrow>
    (nat \<times> pystr \<times> pystr) list \<Rightarrow> article list" where
  "article_loop text cps sps prev ((start, (g1, g2)) # ms) =
     (case prev of
        None \<Rightarrow> []
      | Some (prev_start, prev_number, prev_title) \<Rightarrow>
          [make_article cps sps prev_start prev_number prev_title
             (strip (slice prev_start start text))])
     @ article_loop text cps sps (Some (start, g1, strip g2)) ms"
| "article_loop text cps sps prev [] =
     (case prev of
        None \<Rightarrow> []
      | Some (prev_start, prev_number, prev_title) \<Rightarrow>
          [make_article cps sps prev_start prev_number prev_title
             (strip (drop prev_start text))])"

definition chapter_positions :: "pystr \<Rightarrow> position list" where
  "chapter_positions text = set_ends (length text) (positions chapter_pattern text)"

definition section_positions :: "pystr \<Rightarrow> position list" where
  "section_positions text = set_ends (length text) (positions section_pattern text)"

definition extract_articles_with_structure :: "pystr \<Rightarrow> article list" where
  "extract_articles_with_structure text =
     article_loop text (chapter_positions text) (section_positions text) None
       (finditer article_pattern 0 text)"

section \<open>ParagraphDecomposer\<close>

text \<open>
  \<^verbatim>\<open>(\d+)\.(\s+[^0-9]+?)(?=(?:\d+\.)|(?:\([a-z]\))|$)\<close>. The class \<^verbatim>\<open>[^0-9]\<close> excludes the
  ten ASCII digits only, and \<^verbatim>\<open>re.DOTALL\<close> changes nothing in a pattern without a dot.
\<close>

definition paragraph_ahead :: "pystr \<Rightarrow> bool" where
  "paragraph_ahead s \<longleftrightarrow>
     plus_g is_digit (lit (py ''.'') (\<lambda>_. Some ())) s \<noteq> None \<or>
     lit (py ''('') (cls ascii_lower (lit (py '')'') (\<lambda>_. Some ()))) s \<noteq> None \<or>
     at_end s"

definition paragraph_pattern :: "(pystr \<times> pystr) pattern" where
  "paragraph_pattern =
     group (plus_g is_digit) (\<lambda>g1. lit (py ''.'')
       (group (\<lambda>k. plus_g is_space (plus_l (\<lambda>c. \<not> ascii_digit c) k)) (\<lambda>g2.
          lookahead paragraph_ahead (\<lambda>s. Some ((g1, g2), s)))))"

text \<open>\<^verbatim>\<open>\(([a-z])\)([^()]+?)(?=\([a-z]\)|$)\<close>\<close>

definition letter_marker :: "unit pattern" where
  "letter_marker = lit (py ''('') (cls ascii_lower (lit (py '')'') (\<lambda>s. Some ((), s))))"

definition subparagraph_pattern :: "(pystr \<times> pystr) pattern" where
  "subparagraph_pattern =
     lit (py ''('') (group (cls ascii_lower) (\<lambda>g1. lit (py '')'')
       (group (plus_l (\<lambda>c. \<not> in_chars ''()'' c)) (\<lambda>g2.
          lookahead (\<lambda>s. letter_marker s \<noteq> None \<or> at_end s) (\<lambda>s. Some ((g1, g2), s))))))"

text \<open>\<^verbatim>\<open>\(([ivx]+)\)([^()]+?)(?=\([ivx]+\)|$)\<close>\<close>

definition roman_marker :: "unit pattern" where
  "roman_marker =
     lit (py ''('') (plus_g (in_chars ''ivx'') (lit (py '')'') (\<lambda>s. Some ((), s))))"

definition subsubparagraph_pattern :: "(pystr \<times> pystr) pattern" where
  "subsubparagraph_pattern =
     lit (py ''('') (group (plus_g (in_chars ''ivx'')) (\<lambda>g1. lit (py '')'')
       (group (plus_l (\<lambda>c. \<not> in_chars ''()'' c)) (\<lambda>g2.
          lookahead (\<lambda>s. roman_marker s \<noteq> None \<or> at_end s) (\<lambda>s. Some ((g1, g2), s))))))"

text \<open>\<^verbatim>\<open>re.split(pattern, text)[0]\<close>: the text before the first match.\<close>

definition split_head :: "'m pattern \<Rightarrow> pystr \<Rightarrow> pystr" where
  "split_head m text =
     (case finditer m 0 text of [] \<Rightarrow> text | (start, _) # _ \<Rightarrow> take start text)"

definition make_subsubparagraph :: "nat \<times> pystr \<times> pystr \<Rightarrow> subsubpara" where
  "make_subsubparagraph = (\<lambda>(_, (g1, g2)). \<lparr>ssp_number = g1, ssp_text = strip g2\<rparr>)"

definition make_subparagraph :: "nat \<times> pystr \<times> pystr \<Rightarrow> subpara" where
  "make_subparagraph = (\<lambda>(_, (g1, g2)).
     \<lparr>sp_letter = g1, sp_text = strip g2,
      sp_subsubparagraphs =
        map make_subsubparagraph (finditer subsubparagraph_pattern 0 (strip g2))\<rparr>)"

definition make_paragraph :: "nat \<times> pystr \<times> pystr \<Rightarrow> para" where
  "make_paragraph = (\<lambda>(_, (g1, g2)).
     (let text = strip g2;
          subparagraphs = map make_subparagraph (finditer subparagraph_pattern 0 text)
      in if subparagraphs \<noteq> []
         then \<lparr>p_number = g1, p_text = strip (split_head letter_marker text),
               p_subparagraphs = subparagraphs\<rparr>
         else \<lparr>p_number = g1, p_text = text, p_subparagraphs = []\<rparr>))"

text \<open>The content of an article with its header removed:
  \<^verbatim>\<open>re.sub(header_pattern, '', content).strip()\<close>.\<close>

definition strip_header :: "pystr \<Rightarrow> pystr" where
  "strip_header content = strip (re_sub article_pattern (\<lambda>_. []) content)"

definition extract_paragraphs_and_subparagraphs :: "article \<Rightarrow> article" where
  "extract_paragraphs_and_subparagraphs article =
     (let content = strip_header (a_content article);
          paragraphs = map make_paragraph (finditer paragraph_pattern 0 content);
          paragraphs =
            (if paragraphs = []
             then [\<lparr>p_number = py ''1'', p_text = content, p_subparagraphs = []\<rparr>]
             else paragraphs)
      in article\<lparr>a_paragraphs := paragraphs\<rparr>)"

section \<open>RequirementClassifier\<close>

definition obligation_keywords :: "pystr list" where
  "obligation_keywords =
     [py ''shall'', py ''must'', py ''required'', py ''ensure'', py ''necessary'',
      py ''obligation'', py ''right'', py ''responsibility'', py ''liable'',
      py ''accountable'', py ''duty'', py ''comply'']"

definition right_keywords :: "pystr list" where
  "right_keywords = [py ''right to'', py ''entitled to'', py ''freedom of'', py ''liberty to'']"

definition time_keywords :: "pystr list" where
  "time_keywords =
     [py ''within'', py ''days'', py ''months'', py ''years'', py ''period'', py ''delay'',
      py ''without undue delay'', py ''immediately'', py ''promptly'', py ''no later than'']"

text \<open>\<^verbatim>\<open>any(keyword in sent_text.lower() for keyword in keywords)\<close>\<close>

definition any_keyword :: "pystr list \<Rightarrow> pystr \<Rightarrow> bool" where
  "any_keyword keywords sent_text = list_ex (\<lambda>keyword. str_in keyword (lower sent_text)) keywords"

text \<open>
  The body of the two sentence loops, which differ only in the \<^verbatim>\<open>'subparagraph'\<close> key.
  The state is the list \<^verbatim>\<open>requirements\<close> of the call and the list
  \<^verbatim>\<open>self.time_requirements\<close> of the parser.
\<close>

definition classify_sentence :: "pystr \<Rightarrow> pystr \<Rightarrow> pystr option \<Rightarrow> pystr \<Rightarrow>
    requirement list \<times> time_requirement list \<Rightarrow> requirement list \<times> time_requirement list" where
  "classify_sentence article_number para_number letter sent = (\<lambda>(requirements, time_requirements).
     (let sent_text = strip sent;
          is_obligation = any_keyword obligation_keywords sent_text;
          is_right = any_keyword right_keywords sent_text;
          is_time_requirement = any_keyword time_keywords sent_text
      in if is_obligation \<or> is_right
         then (requirements @
                 [\<lparr>rq_paragraph = para_number, rq_subparagraph = letter, rq_text = sent_text,
                   rq_is_obligation = is_obligation, rq_is_right = is_right,
                   rq_is_time_requirement = is_time_requirement\<rparr>],
               if is_time_requirement
               then time_requirements @
                      [\<lparr>tr_article = article_number, tr_paragraph = para_number,
                        tr_subparagraph = letter, tr_text = sent_text\<rparr>]
               else time_requirements)
         else (requirements, time_requirements)))"

definition classify_subparagraph :: "nlp \<Rightarrow> pystr \<Rightarrow> pystr \<Rightarrow> subpara \<Rightarrow>
    requirement list \<times> time_requirement list \<Rightarrow> requirement list \<times> time_requirement list" where
  "classify_subparagraph nlp article_number para_number subpara =
     fold (classify_sentence article_number para_number (Some (sp_letter subpara)))
       (sents nlp (sp_text subpara))"

definition classify_paragraph :: "nlp \<Rightarrow> pystr \<Rightarrow> para \<Rightarrow>
    requirement list \<times> time_requirement list \<Rightarrow> requirement list \<times> time_requirement list" where
  "classify_paragraph nlp article_number para st =
     fold (classify_subparagraph nlp article_number (p_number para)) (p_subparagraphs para)
       (fold (classify_sentence article_number (p_number para) None) (sents nlp (p_text para)) st)"

text \<open>
  \<open>extract_requirements\<close> returns the article with its requirements and entities, and the
  new value of \<^verbatim>\<open>self.time_requirements\<close>.
\<close>

definition extract_requirements :: "nlp \<Rightarrow> article \<Rightarrow> time_requirement list \<Rightarrow>
    article \<times> time_requirement list" where
  "extract_requirements nlp article time_requirements =
     (let entities =
            filter (\<lambda>ent. en_label ent \<in> set [py ''ORG'', py ''PERSON'', py ''GPE'', py ''LOC'',
                                               py ''NORP''])
              (ents nlp (a_content article));
          (requirements, time_requirements) =
            fold (classify_paragraph nlp (a_number article)) (a_paragraphs article)
              ([], time_requirements)
      in (article\<lparr>a_requirements := requirements, a_entities := entities\<rparr>, time_requirements))"

section \<open>CrossReferenceExtractor\<close>

text \<open>\<^verbatim>\<open>Article\s+(\d+)(?:\s*\(\s*(\d+)\s*\))?\<close>\<close>

definition article_ref_pattern :: "(pystr \<times> pystr option) pattern" where
  "article_ref_pattern =
     lit (py ''Article'') (plus_g is_space (group (plus_g is_digit) (\<lambda>g1.
       opt_group (\<lambda>k. star_g is_space (lit (py ''('') (star_g is_space
                    (group (plus_g is_digit) (\<lambda>g2. star_g is_space (lit (py '')'') (k g2)))))))
         (\<lambda>g2 s. Some ((g1, g2), s)))))"

text \<open>
  A Python dictionary keeps its keys in the order of their first insertion, and the
  loops of \<open>populate_database\<close> run over them in that order: it is an association list
  in which a key occurs once.
\<close>

type_synonym ('k, 'v) dict = "('k \<times> 'v) list"

fun dict_set :: "('k, 'v) dict \<Rightarrow> 'k \<Rightarrow> 'v \<Rightarrow> ('k, 'v) dict" where
  "dict_set [] k v = [(k, v)]"
| "dict_set ((k', v') # d) k v = (if k' = k then (k, v) # d else (k', v') # dict_set d k v)"

text \<open>
  \<^verbatim>\<open>if reference not in cross_references[article_num]:
      cross_references[article_num].append(reference)\<close>
  on a \<^verbatim>\<open>defaultdict(list)\<close>: reading a missing key inserts the empty list, to which the
  reference is then added.
\<close>

definition add_reference :: "(pystr, reference list) dict \<Rightarrow> pystr \<Rightarrow> reference \<Rightarrow>
    (pystr, reference list) dict" where
  "add_reference cross_references article_num reference =
     (case map_of cross_references article_num of
        None \<Rightarrow> cross_references @ [(article_num, [reference])]
      | Some refs \<Rightarrow>
          if reference \<in> set refs then cross_references
          else dict_set cross_references article_num (refs @ [reference]))"

definition references_in :: "pystr \<Rightarrow> reference list" where
  "references_in content =
     map (\<lambda>(_, (g1, g2)). \<lparr>ref_article = g1, ref_paragraph = g2\<rparr>)
       (finditer article_ref_pattern 0 content)"

definition article_references :: "article \<Rightarrow> (pystr, reference list) dict \<Rightarrow>
    (pystr, reference list) dict" where
  "article_references article =
     fold (\<lambda>reference cross_references.
             if ref_article reference \<noteq> a_number article
             then add_reference cross_references (a_number article) reference
             else cross_references)
       (references_in (a_content article))"

definition extract_cross_references :: "article list \<Rightarrow> (pystr, reference list) dict" where
  "extract_cross_references articles = fold article_references articles []"

section \<open>KnowledgeStore: the tables\<close>

text \<open>
  One record per table of \<open>init_database\<close>, a column per field; a nullable column is an
  option. A table is the list of its rows in the order of their row identifiers, which is
  the order of insertion and the order in which a query without \<^verbatim>\<open>ORDER BY\<close> returns them.
\<close>

record chapter_row =
  ch_id :: nat
  ch_number :: pystr
  ch_title :: pystr

record section_row =
  se_id :: nat
  se_chapter_id :: "nat option"
  se_number :: pystr
  se_title :: pystr

record article_row =
  ar_id :: nat
  ar_number :: pystr
  ar_title :: pystr
  ar_content :: pystr
  ar_chapter_id :: "nat option"
  ar_section_id :: "nat option"

record recital_row =
  rc_id :: nat
  rc_number :: pystr
  rc_content :: pystr

record paragraph_row =
  pa_id :: nat
  pa_article_id :: nat
  pa_number :: pystr
  pa_text :: pystr

record subparagraph_row =
  sb_id :: nat
  sb_paragraph_id :: nat
  sb_letter :: pystr
  sb_text :: pystr

record subsubparagraph_row =
  ss_id :: nat
  ss_subparagraph_id :: nat
  ss_number :: pystr
  ss_text :: pystr

record requirement_row =
  rr_id :: nat
  rr_article_id :: nat
  rr_paragraph_id :: "nat option"
  rr_subparagraph_id :: "nat option"
  rr_text :: pystr
  rr_is_obligation :: bool
  rr_is_right :: bool
  rr_is_time_requirement :: bool

record entity_row =
  er_id :: nat
  er_article_id :: nat
  er_text :: pystr
  er_label :: pystr
  er_start_pos :: nat
  er_end_pos :: nat

record definition_row =
  df_id :: nat
  df_term :: pystr
  df_definition :: pystr
  df_article_id :: "nat option"
  df_paragraph_id :: "nat option"
  df_subparagraph_id :: "nat option"

record cross_reference_row =
  cr_id :: nat
  cr_from_article_id :: nat
  cr_to_article_id :: nat
  cr_to_paragraph :: "pystr option"

record time_requirement_row =
  tq_id :: nat
  tq_article_id :: nat
  tq_paragraph_id :: "nat option"
  tq_subparagraph_id :: "nat option"
  tq_text :: pystr

record key_actor_row =
  ka_id :: nat
  ka_actor_type :: pystr
  ka_article_id :: nat
  ka_text :: pystr

record policy_section_row =
  ps_id :: nat
  ps_section_name :: pystr
  ps_description :: pystr
  ps_related_articles :: pystr
  ps_required_information :: pystr

record db =
  t_chapters :: "chapter_row list"
  t_sections :: "section_row list"
  t_articles :: "article_row list"
  t_recitals :: "recital_row list"
  t_paragraphs :: "paragraph_row list"
  t_subparagraphs :: "subparagraph_row list"
  t_subsubparagraphs :: "subsubparagraph_row list"
  t_requirements :: "requirement_row list"
  t_entities :: "entity_row list"
  t_definitions :: "definition_row list"
  t_cross_references :: "cross_reference_row list"
  t_time_requirements :: "time_requirement_row list"
  t_key_actors :: "key_actor_row list"
  t_privacy_policy_sections :: "policy_section_row list"

definition empty_db :: db where
  "empty_db =
     \<lparr>t_chapters = [], t_sections = [], t_articles = [], t_recitals = [], t_paragraphs = [],
      t_subparagraphs = [], t_subsubparagraphs = [], t_requirements = [], t_entities = [],
      t_definitions = [], t_cross_references = [], t_time_requirements = [], t_key_actors = [],
      t_privacy_policy_sections = []\<rparr>"

section \<open>KnowledgeStore: reconstruction, export and search\<close>

text \<open>
  The dictionaries \<open>get_article_by_number\<close> and \<open>export_to_json\<close> build have the same keys,
  except that those of the export carry no \<^verbatim>\<open>'id'\<close> and its articles no \<^verbatim>\<open>'entities'\<close> and
  \<^verbatim>\<open>'cross_references'\<close>. The type of the identifier and the type of these extras are
  parameters: \<open>nat\<close> and the two lists for the reconstruction, \<open>unit\<close> for the export.
\<close>

record 'i subsubparagraph_view =
  v3_id :: 'i
  v3_number :: pystr
  v3_text :: pystr

record 'i subparagraph_view =
  v2_id :: 'i
  v2_letter :: pystr
  v2_text :: pystr
  v2_subsubparagraphs :: "'i subsubparagraph_view list"

record 'i paragraph_view =
  v1_id :: 'i
  v1_number :: pystr
  v1_text :: pystr
  v1_subparagraphs :: "'i subparagraph_view list"

record 'i requirement_view =
  vr_id :: 'i
  vr_text :: pystr
  vr_is_obligation :: bool
  vr_is_right :: bool
  vr_is_time_requirement :: bool

record ('i, 'x) article_view =
  av_id :: 'i
  av_number :: pystr
  av_title :: pystr
  av_content :: pystr
  av_chapter :: "(pystr \<times> pystr) option"
  av_section :: "(pystr \<times> pystr) option"
  av_paragraphs :: "'i paragraph_view list"
  av_requirements :: "'i requirement_view list"
  av_extras :: 'x

text \<open>
  \<^verbatim>\<open>ORDER BY\<close> on a \<^verbatim>\<open>TEXT\<close> column compares the strings code point by code point, a proper
  prefix first: the lexicographic order of lists. Rows with equal keys stay in the order
  of their identifiers.
\<close>

definition subsubparagraphs_of :: "db \<Rightarrow> nat \<Rightarrow> subsubparagraph_row list" where
  "subsubparagraphs_of d subpara_id =
     sort_key ss_number (filter (\<lambda>r. ss_subparagraph_id r = subpara_id) (t_subsubparagraphs d))"

definition subparagraphs_of :: "db \<Rightarrow> nat \<Rightarrow> subparagraph_row list" where
  "subparagraphs_of d para_id =
     sort_key sb_letter (filter (\<lambda>r. sb_paragraph_id r = para_id) (t_subparagraphs d))"

definition paragraphs_of :: "db \<Rightarrow> nat \<Rightarrow> paragraph_row list" where
  "paragraphs_of d article_id =
     sort_key pa_number (filter (\<lambda>r. pa_article_id r = article_id) (t_paragraphs d))"

definition requirements_of :: "db \<Rightarrow> nat \<Rightarrow> requirement_row list" where
  "requirements_of d article_id = filter (\<lambda>r. rr_article_id r = article_id) (t_requirements d)"

text \<open>
  The joined columns \<^verbatim>\<open>c.number, c.title\<close> of \<^verbatim>\<open>LEFT JOIN chapters c ON a.chapter_id = c.id\<close>,
  and the value of \<^verbatim>\<open>{'number': .., 'title': ..} if chapter_num else None\<close>.
\<close>

definition chapter_of :: "db \<Rightarrow> nat option \<Rightarrow> (pystr \<times> pystr) option" where
  "chapter_of d chapter_id =
     (case chapter_id of
        None \<Rightarrow> None
      | Some i \<Rightarrow>
          (case find (\<lambda>c. ch_id c = i) (t_chapters d) of
             None \<Rightarrow> None
           | Some c \<Rightarrow> if ch_number c \<noteq> [] then Some (ch_number c, ch_title c) else None))"

definition section_of :: "db \<Rightarrow> nat option \<Rightarrow> (pystr \<times> pystr) option" where
  "section_of d section_id =
     (case section_id of
        None \<Rightarrow> None
      | Some i \<Rightarrow>
          (case find (\<lambda>s. se_id s = i) (t_sections d) of
             None \<Rightarrow> None
           | Some s \<Rightarrow> if se_number s \<noteq> [] then Some (se_number s, se_title s) else None))"

text \<open>The three nested loops over the paragraphs of an article, in \<open>get_article_by_number\<close>.\<close>

definition get_subsubparagraph :: "subsubparagraph_row \<Rightarrow> nat subsubparagraph_view" where
  "get_subsubparagraph r = \<lparr>v3_id = ss_id r, v3_number = ss_number r, v3_text = ss_text r\<rparr>"

definition get_subparagraph :: "db \<Rightarrow> subparagraph_row \<Rightarrow> nat subparagraph_view" where
  "get_subparagraph d r =
     \<lparr>v2_id = sb_id r, v2_letter = sb_letter r, v2_text = sb_text r,
      v2_subsubparagraphs = map get_subsubparagraph (subsubparagraphs_of d (sb_id r))\<rparr>"

definition get_paragraph :: "db \<Rightarrow> paragraph_row \<Rightarrow> nat paragraph_view" where
  "get_paragraph d r =
     \<lparr>v1_id = pa_id r, v1_number = pa_number r, v1_text = pa_text r,
      v1_subparagraphs = map (get_subparagraph d) (subparagraphs_of d (pa_id r))\<rparr>"

definition get_requirement :: "requirement_row \<Rightarrow> nat requirement_view" where
  "get_requirement r =
     \<lparr>vr_id = rr_id r, vr_text = rr_text r, vr_is_obligation = rr_is_obligation r,
      vr_is_right = rr_is_right r, vr_is_time_requirement = rr_is_time_requirement r\<rparr>"

definition get_entity :: "entity_row \<Rightarrow> nat \<times> entity" where
  "get_entity r =
     (er_id r, \<lparr>en_text = er_text r, en_label = er_label r, en_start = er_start_pos r,
                en_end = er_end_pos r\<rparr>)"

text \<open>
  \<^verbatim>\<open>SELECT a.number, cr.to_paragraph FROM cross_references cr
  JOIN articles a ON cr.to_article_id = a.id WHERE cr.from_article_id = ?\<close>
\<close>

definition get_cross_references :: "db \<Rightarrow> nat \<Rightarrow> reference list" where
  "get_cross_references d article_id =
     concat (map (\<lambda>cr.
         case find (\<lambda>a. ar_id a = cr_to_article_id cr) (t_articles d) of
           None \<Rightarrow> []
         | Some a \<Rightarrow> [\<lparr>ref_article = ar_number a, ref_paragraph = cr_to_paragraph cr\<rparr>])
       (filter (\<lambda>cr. cr_from_article_id cr = article_id) (t_cross_references d)))"

text \<open>\<open>get_article_by_number\<close>: \<^verbatim>\<open>fetchone()\<close> takes the first article row with the number.\<close>

definition get_article_by_number :: "db \<Rightarrow> pystr \<Rightarrow>
    (nat, (nat \<times> entity) list \<times> reference list) article_view option" where
  "get_article_by_number d article_number =
     (case find (\<lambda>a. ar_number a = article_number) (t_articles d) of
        None \<Rightarrow> None
      | Some a \<Rightarrow>
          Some \<lparr>av_id = ar_id a, av_number = ar_number a, av_title = ar_title a,
                av_content = ar_content a,
                av_chapter = chapter_of d (ar_chapter_id a),
                av_section = section_of d (ar_section_id a),
                av_paragraphs = map (get_paragraph d) (paragraphs_of d (ar_id a)),
                av_requirements = map get_requirement (requirements_of d (ar_id a)),
                av_extras =
                  (map get_entity (filter (\<lambda>e. er_article_id e = ar_id a) (t_entities d)),
                   get_cross_references d (ar_id a))\<rparr>)"

text \<open>The same loops in \<open>export_to_json\<close>, and the list under its key \<^verbatim>\<open>"articles"\<close>.\<close>

definition export_subsubparagraph :: "subsubparagraph_row \<Rightarrow> unit subsubparagraph_view" where
  "export_subsubparagraph r = \<lparr>v3_id = (), v3_number = ss_number r, v3_text = ss_text r\<rparr>"

definition export_subparagraph :: "db \<Rightarrow> subparagraph_row \<Rightarrow> unit subparagraph_view" where
  "export_subparagraph d r =
     \<lparr>v2_id = (), v2_letter = sb_letter r, v2_text = sb_text r,
      v2_subsubparagraphs = map export_subsubparagraph (subsubparagraphs_of d (sb_id r))\<rparr>"

definition export_paragraph :: "db \<Rightarrow> paragraph_row \<Rightarrow> unit paragraph_view" where
  "export_paragraph d r =
     \<lparr>v1_id = (), v1_number = pa_number r, v1_text = pa_text r,
      v1_subparagraphs = map (export_subparagraph d) (subparagraphs_of d (pa_id r))\<rparr>"

definition export_requirement :: "requirement_row \<Rightarrow> unit requirement_view" where
  "export_requirement r =
     \<lparr>vr_id = (), vr_text = rr_text r, vr_is_obligation = rr_is_obligation r,
      vr_is_right = rr_is_right r, vr_is_time_requirement = rr_is_time_requirement r\<rparr>"

definition export_article :: "db \<Rightarrow> article_row \<Rightarrow> (unit, unit) article_view" where
  "export_article d a =
     \<lparr>av_id = (), av_number = ar_number a, av_title = ar_title a, av_content = ar_content a,
      av_chapter = chapter_of d (ar_chapter_id a),
      av_section = section_of d (ar_section_id a),
      av_paragraphs = map (export_paragraph d) (paragraphs_of d (ar_id a)),
      av_requirements = map export_requirement (requirements_of d (ar_id a)),
      av_extras = ()\<rparr>"

definition export_articles :: "db \<Rightarrow> (unit, unit) article_view list" where
  "export_articles d = map (export_article d) (sort_key ar_number (t_articles d))"

text \<open>
  \<^verbatim>\<open>text LIKE pattern\<close>: \<^verbatim>\<open>%\<close> stands for any sequence of characters, \<^verbatim>\<open>_\<close> for any one
  character, and the letters \<^verbatim>\<open>A\<close>..\<^verbatim>\<open>Z\<close> match their lower-case forms.
\<close>

definition like_fold :: "pychar \<Rightarrow> pychar" where
  "like_fold c = (if 65 \<le> c \<and> c \<le> 90 then c + 32 else c)"

fun sql_like :: "pystr \<Rightarrow> pystr \<Rightarrow> bool" where
  "sql_like [] t = (t = [])"
| "sql_like (p # ps) [] = (p = of_char CHR ''%'' \<and> sql_like ps [])"
| "sql_like (p # ps) (c # cs) =
     (if p = of_char CHR ''%'' then sql_like ps (c # cs) \<or> sql_like (p # ps) cs
      else (p = of_char CHR ''_'' \<or> like_fold p = like_fold c) \<and> sql_like ps cs)"

text \<open>The snippet \<open>search_by_keyword\<close> cuts around the keyword; the offsets are Python
  integers, \<^verbatim>\<open>find\<close> returning \<open>-1\<close> when the keyword does not occur.\<close>

definition find_int :: "pystr \<Rightarrow> pystr \<Rightarrow> int" where
  "find_int s sub = (case str_find s sub of None \<Rightarrow> - 1 | Some i \<Rightarrow> int i)"

definition snippet :: "pystr \<Rightarrow> pystr \<Rightarrow> pystr" where
  "snippet para_text keyword =
     (let keyword_position = find_int (lower para_text) (lower keyword);
          start_pos = max 0 (keyword_position - 50);
          end_pos = min (int (length para_text)) (keyword_position + int (length keyword) + 50)
      in (if start_pos > 0 then py ''...'' else []) @
         slice (nat start_pos) (nat end_pos) para_text @
         (if end_pos < int (length para_text) then py ''...'' else []))"

definition search_by_keyword :: "db \<Rightarrow> pystr \<Rightarrow> (pystr \<times> pystr \<times> (pystr \<times> pystr) list) list" where
  "search_by_keyword d keyword =
     map (\<lambda>a.
         (ar_number a, ar_title a,
          map (\<lambda>p. (pa_number p, snippet (pa_text p) keyword))
            (sort_key pa_number
               (filter (\<lambda>p. pa_article_id p = ar_id a \<and>
                            sql_like (py ''%'' @ keyword @ py ''%'') (pa_text p))
                  (t_paragraphs d)))))
       (sort_key ar_number
          (filter (\<lambda>a. sql_like (py ''%'' @ keyword @ py ''%'') (ar_content a)) (t_articles d)))"

section \<open>KnowledgeStore: the parser object, the connection and the file\<close>

text \<open>
  The exceptions the model raises: \<^verbatim>\<open>AttributeError\<close> when \<^verbatim>\<open>self.cursor\<close> is still
  \<^verbatim>\<open>None\<close>, \<^verbatim>\<open>sqlite3.IntegrityError\<close> for \<^verbatim>\<open>NULL\<close> in a \<^verbatim>\<open>NOT NULL\<close> column,
  \<^verbatim>\<open>sqlite3.OperationalError\<close> for a failure of the storage (disk full, database locked),
  and the error of the external PDF reader.
\<close>

datatype error = AttributeError | IntegrityError | OperationalError | PdfReadError

text \<open>An entry of \<^verbatim>\<open>self.definitions\<close>.\<close>

record definition_entry =
  de_term :: pystr
  de_definition :: pystr
  de_article :: pystr
  de_paragraph :: pystr
  de_subparagraph :: "pystr option"

text \<open>
  The state: the caches of the parser object, the content of the database file, and the
  connection. \<^verbatim>\<open>sqlite3\<close> opens a transaction before the first \<^verbatim>\<open>INSERT\<close> and keeps it open
  until \<^verbatim>\<open>commit()\<close>, so a connection is the content it shows to its own statements: that
  of the file with the changes not yet committed. \<open>self_conn\<close> is \<open>None\<close> while
  \<^verbatim>\<open>self.conn\<close> is \<^verbatim>\<open>None\<close>. \<open>statements_left\<close> is the environment: \<open>Some k\<close> when the
  storage fails at the statement after the next \<open>k\<close>, \<open>None\<close> when it never fails.
\<close>

record state =
  self_chapters :: "(pystr \<times> pystr) list"
  self_sections :: "(pystr \<times> pystr) list"
  self_definitions :: "(pystr, definition_entry) dict"
  self_cross_references :: "(pystr, reference list) dict"
  self_time_requirements :: "time_requirement list"
  self_conn :: "db option"
  db_file :: db
  statements_left :: "nat option"

type_synonym 'a action = "state \<Rightarrow> (error + 'a) \<times> state"

definition return :: "'a \<Rightarrow> 'a action" where
  "return x = (\<lambda>s. (Inr x, s))"


definition bind :: "'a action \<Rightarrow> ('a \<Rightarrow> 'b action) \<Rightarrow> 'b action" where
  "bind m f = (\<lambda>s. case m s of (Inl e, s') \<Rightarrow> (Inl e, s') | (Inr x, s') \<Rightarrow> f x s')"

text \<open>A \<^verbatim>\<open>for\<close> loop whose body updates the local variables \<open>a\<close>.\<close>

fun for_loop :: "'x list \<Rightarrow> 'a \<Rightarrow> ('x \<Rightarrow> 'a \<Rightarrow> 'a action) \<Rightarrow> 'a action" where
  "for_loop [] a body = return a"
| "for_loop (x # xs) a body = bind (body x a) (\<lambda>a'. for_loop xs a' body)"

text \<open>
  \<^verbatim>\<open>self.cursor.execute("INSERT ...")\<close> followed by \<^verbatim>\<open>self.cursor.lastrowid\<close>. The insert
  is a function from the content the connection shows to the new row identifier and the
  new content, or to the exception of a violated constraint.
\<close>

definition execute :: "(db \<Rightarrow> error + nat \<times> db) \<Rightarrow> nat action" where
  "execute ins = (\<lambda>s.
     case self_conn s of
       None \<Rightarrow> (Inl AttributeError, s)
     | Some d \<Rightarrow>
         (case statements_left s of
            Some 0 \<Rightarrow> (Inl OperationalError, s)
          | left \<Rightarrow>
              (case ins d of
                 Inl e \<Rightarrow> (Inl e, s)
               | Inr (rowid, d') \<Rightarrow>
                   (Inr rowid,
                    s\<lparr>self_conn := Some d', statements_left := map_option (\<lambda>k. k - 1) left\<rparr>))))"

text \<open>
  \<^verbatim>\<open>self.conn.commit()\<close>: the file takes the content of the connection, or the storage
  fails and the file stays as it is.
\<close>

definition commit :: "unit action" where
  "commit = (\<lambda>s.
     case self_conn s of
       None \<Rightarrow> (Inl AttributeError, s)
     | Some d \<Rightarrow>
         (case statements_left s of
            Some 0 \<Rightarrow> (Inl OperationalError, s)
          | left \<Rightarrow> (Inr (), s\<lparr>db_file := d, statements_left := map_option (\<lambda>k. k - 1) left\<rparr>)))"
















section \<open>KnowledgeStore: population\<close>


definition execute_only :: "(db \<Rightarrow> error + nat \<times> db) \<Rightarrow> unit action" where
  "execute_only ins = bind (execute ins) (\<lambda>_. return ())"










text \<open>
  \<open>init_database\<close>: a new connection on the file, which shows the committed content (the
  changes a previous connection had not committed are lost with it); the \<^verbatim>\<open>PRAGMA\<close> and the
  fourteen \<^verbatim>\<open>CREATE TABLE IF NOT EXISTS\<close> statements, which leave the rows as they are; the
  caches reset; the commit.
\<close>

definition connect :: "unit action" where
  "connect = (\<lambda>s. (Inr (), s\<lparr>self_conn := Some (db_file s)\<rparr>))"

definition reset_caches :: "unit action" where
  "reset_caches = (\<lambda>s.
     (Inr (), s\<lparr>self_chapters := [], self_sections := [], self_definitions := [],
               self_cross_references := [], self_time_requirements := []\<rparr>))"

definition init_database :: "unit action" where
  "init_database =
     bind connect (\<lambda>_.
     bind (for_loop (replicate 15 ()) () (\<lambda>_ _. execute_only (\<lambda>d. Inr (0, d)))) (\<lambda>_.
     bind reset_caches (\<lambda>_. commit)))"

section \<open>Definitions used to state the properties\<close>

text \<open>What "every maximal whitespace run is collapsed to a single space" computes.\<close>

function collapse_runs :: "pystr \<Rightarrow> pystr" where
  "collapse_runs [] = []"
| "collapse_runs (c # cs) =
     (if is_space c then of_char CHR '' '' # collapse_runs (dropWhile is_space cs)
      else c # collapse_runs cs)"
  by pat_completeness auto
termination
  by (relation "measure length") (auto simp: le_imp_less_Suc length_dropWhile_le)

text \<open>A string is tidy when its only whitespace characters are single spaces.\<close>

fun tidy :: "pystr \<Rightarrow> bool" where
  "tidy [] = True"
| "tidy [c] = (is_space c \<longrightarrow> c = 32)"
| "tidy (c # d # s) = ((is_space c \<longrightarrow> c = 32 \<and> \<not> is_space d) \<and> tidy (d # s))"

definition starts_ws :: "pystr \<Rightarrow> bool" where
  "starts_ws s \<longleftrightarrow> (case s of [] \<Rightarrow> False | c # _ \<Rightarrow> is_space c)"

text \<open>The half-open interval \<open>[start, end)\<close> of a position holds an offset.\<close>

definition holds_offset :: "nat \<Rightarrow> position \<Rightarrow> bool" where
  "holds_offset off p \<longleftrightarrow> pos_start p \<le> off \<and> (\<exists>e. pos_end p = Some e \<and> off < e)"

definition first_holding :: "nat \<Rightarrow> position list \<Rightarrow> (pystr \<times> pystr) option" where
  "first_holding off ps = map_option (\<lambda>p. (pos_number p, pos_title p)) (find (holds_offset off) ps)"

text \<open>
  The sentences the external segmenter returns for the paragraph and subparagraph texts
  of an article, in the order the classifier visits them, each with the paragraph number
  and the subparagraph letter it comes from; and the three flags of a sentence.
\<close>

definition segmented_sentences :: "nlp \<Rightarrow> article \<Rightarrow> (pystr \<times> pystr option \<times> pystr) list" where
  "segmented_sentences nlp article =
     concat (map (\<lambda>para.
         map (\<lambda>sent. (p_number para, None, strip sent)) (sents nlp (p_text para)) @
         concat (map (\<lambda>subpara.
             map (\<lambda>sent. (p_number para, Some (sp_letter subpara), strip sent))
               (sents nlp (sp_text subpara)))
           (p_subparagraphs para)))
       (a_paragraphs article))"

definition obligation_flag :: "pystr \<Rightarrow> bool" where
  "obligation_flag sent_text = any_keyword obligation_keywords sent_text"

definition right_flag :: "pystr \<Rightarrow> bool" where
  "right_flag sent_text = any_keyword right_keywords sent_text"

definition time_flag :: "pystr \<Rightarrow> bool" where
  "time_flag sent_text = any_keyword time_keywords sent_text"

definition requirement_of :: "pystr \<times> pystr option \<times> pystr \<Rightarrow> requirement" where
  "requirement_of = (\<lambda>(para_number, letter, sent_text).
     \<lparr>rq_paragraph = para_number, rq_subparagraph = letter, rq_text = sent_text,
      rq_is_obligation = obligation_flag sent_text, rq_is_right = right_flag sent_text,
      rq_is_time_requirement = time_flag sent_text\<rparr>)"

definition time_requirement_of :: "pystr \<Rightarrow> pystr \<times> pystr option \<times> pystr \<Rightarrow> time_requirement" where
  "time_requirement_of article_number = (\<lambda>(para_number, letter, sent_text).
     \<lparr>tr_article = article_number, tr_paragraph = para_number, tr_subparagraph = letter,
      tr_text = sent_text\<rparr>)"

definition stored :: "pystr \<times> pystr option \<times> pystr \<Rightarrow> bool" where
  "stored = (\<lambda>(para_number, letter, sent_text). obligation_flag sent_text \<or> right_flag sent_text)"

definition stored_timed :: "pystr \<times> pystr option \<times> pystr \<Rightarrow> bool" where
  "stored_timed = (\<lambda>(para_number, letter, sent_text).
     (obligation_flag sent_text \<or> right_flag sent_text) \<and> time_flag sent_text)"

text \<open>
  The list a dictionary of cross-references holds for a source article (empty when the
  article is no key), the step that appends an element unless it is there already, and
  the list of the first occurrences of the elements of a list, in their order.
\<close>

definition refs_of :: "(pystr, reference list) dict \<Rightarrow> pystr \<Rightarrow> reference list" where
  "refs_of d n = (case map_of d n of None \<Rightarrow> [] | Some refs \<Rightarrow> refs)"

definition add_new :: "'a \<Rightarrow> 'a list \<Rightarrow> 'a list" where
  "add_new x xs = (if x \<in> set xs then xs else xs @ [x])"

definition first_seen :: "'a list \<Rightarrow> 'a list" where
  "first_seen xs = rev (remdups (rev xs))"


text \<open>A reconstructed tree without its identifiers and extras: the shape of an export entry.\<close>

definition erase_subsubparagraph :: "nat subsubparagraph_view \<Rightarrow> unit subsubparagraph_view" where
  "erase_subsubparagraph v = \<lparr>v3_id = (), v3_number = v3_number v, v3_text = v3_text v\<rparr>"

definition erase_subparagraph :: "nat subparagraph_view \<Rightarrow> unit subparagraph_view" where
  "erase_subparagraph v =
     \<lparr>v2_id = (), v2_letter = v2_letter v, v2_text = v2_text v,
      v2_subsubparagraphs = map erase_subsubparagraph (v2_subsubparagraphs v)\<rparr>"

definition erase_paragraph :: "nat paragraph_view \<Rightarrow> unit paragraph_view" where
  "erase_paragraph v =
     \<lparr>v1_id = (), v1_number = v1_number v, v1_text = v1_text v,
      v1_subparagraphs = map erase_subparagraph (v1_subparagraphs v)\<rparr>"

definition erase_requirement :: "nat requirement_view \<Rightarrow> unit requirement_view" where
  "erase_requirement v =
     \<lparr>vr_id = (), vr_text = vr_text v, vr_is_obligation = vr_is_obligation v,
      vr_is_right = vr_is_right v, vr_is_time_requirement = vr_is_time_requirement v\<rparr>"

definition erase_article :: "(nat, 'x) article_view \<Rightarrow> (unit, unit) article_view" where
  "erase_article v =
     \<lparr>av_id = (), av_number = av_number v, av_title = av_title v, av_content = av_content v,
      av_chapter = av_chapter v, av_section = av_section v,
      av_paragraphs = map erase_paragraph (av_paragraphs v),
      av_requirements = map erase_requirement (av_requirements v),
      av_extras = ()\<rparr>"

text \<open>
  Two small stores. In the first, article \<open>1\<close> has the paragraphs \<open>2\<close> and \<open>10\<close>, inserted in
  this order. In the second, two article rows carry the number \<open>1\<close>, each with one
  paragraph of its own.
\<close>

definition example_store :: db where
  "example_store = empty_db
     \<lparr>t_articles :=
        [\<lparr>ar_id = 1, ar_number = py ''1'', ar_title = py ''Scope'', ar_content = py ''text'',
          ar_chapter_id = None, ar_section_id = None\<rparr>],
      t_paragraphs :=
        [\<lparr>pa_id = 1, pa_article_id = 1, pa_number = py ''2'', pa_text = py ''second''\<rparr>,
         \<lparr>pa_id = 2, pa_article_id = 1, pa_number = py ''10'', pa_text = py ''tenth''\<rparr>]\<rparr>"

definition twin_store :: db where
  "twin_store = empty_db
     \<lparr>t_articles :=
        [\<lparr>ar_id = 1, ar_number = py ''1'', ar_title = py ''Scope'', ar_content = py ''old'',
          ar_chapter_id = None, ar_section_id = None\<rparr>,
         \<lparr>ar_id = 2, ar_number = py ''1'', ar_title = py ''Scope'', ar_content = py ''new'',
          ar_chapter_id = None, ar_section_id = None\<rparr>],
      t_paragraphs :=
        [\<lparr>pa_id = 1, pa_article_id = 1, pa_number = py ''1'', pa_text = py ''old text''\<rparr>,
         \<lparr>pa_id = 2, pa_article_id = 2, pa_number = py ''1'', pa_text = py ''new text''\<rparr>]\<rparr>"

definition example_tree :: "(nat, (nat \<times> entity) list \<times> reference list) article_view" where
  "example_tree =
     \<lparr>av_id = 1, av_number = py ''1'', av_title = py ''Scope'', av_content = py ''text'',
      av_chapter = None, av_section = None,
      av_paragraphs =
        [\<lparr>v1_id = 2, v1_number = py ''10'', v1_text = py ''tenth'', v1_subparagraphs = []\<rparr>,
         \<lparr>v1_id = 1, v1_number = py ''2'', v1_text = py ''second'', v1_subparagraphs = []\<rparr>],
      av_requirements = [], av_extras = ([], [])\<rparr>"

text \<open>
  A store with two articles that refer to each other. Article \<open>1\<close> has the paragraphs \<open>2\<close>
  and \<open>10\<close>, the first of them with the subparagraphs \<open>b\<close> and \<open>a\<close>, inserted in this
  order, a requirement and an entity; \<open>linked_tree\<close> is its reconstruction.
\<close>

definition linked_store :: db where
  "linked_store = empty_db
     \<lparr>t_articles :=
        [\<lparr>ar_id = 1, ar_number = py ''1'', ar_title = py ''Scope'', ar_content = py ''text'',
          ar_chapter_id = None, ar_section_id = None\<rparr>,
         \<lparr>ar_id = 2, ar_number = py ''2'', ar_title = py ''Terms'', ar_content = py ''more'',
          ar_chapter_id = None, ar_section_id = None\<rparr>],
      t_paragraphs :=
        [\<lparr>pa_id = 1, pa_article_id = 1, pa_number = py ''2'', pa_text = py ''second''\<rparr>,
         \<lparr>pa_id = 2, pa_article_id = 1, pa_number = py ''10'', pa_text = py ''tenth''\<rparr>,
         \<lparr>pa_id = 3, pa_article_id = 2, pa_number = py ''1'', pa_text = py ''other''\<rparr>],
      t_subparagraphs :=
        [\<lparr>sb_id = 1, sb_paragraph_id = 1, sb_letter = py ''b'', sb_text = py ''beta''\<rparr>,
         \<lparr>sb_id = 2, sb_paragraph_id = 1, sb_letter = py ''a'', sb_text = py ''alpha''\<rparr>],
      t_subsubparagraphs :=
        [\<lparr>ss_id = 1, ss_subparagraph_id = 2, ss_number = py ''ii'', ss_text = py ''two''\<rparr>,
         \<lparr>ss_id = 2, ss_subparagraph_id = 2, ss_number = py ''i'', ss_text = py ''one''\<rparr>],
      t_requirements :=
        [\<lparr>rr_id = 1, rr_article_id = 2, rr_paragraph_id = Some 3, rr_subparagraph_id = None,
          rr_text = py ''It may.'', rr_is_obligation = False, rr_is_right = True,
          rr_is_time_requirement = False\<rparr>,
         \<lparr>rr_id = 2, rr_article_id = 1, rr_paragraph_id = Some 1, rr_subparagraph_id = None,
          rr_text = py ''It shall.'', rr_is_obligation = True, rr_is_right = False,
          rr_is_time_requirement = False\<rparr>],
      t_entities :=
        [\<lparr>er_id = 1, er_article_id = 1, er_text = py ''EU'', er_label = py ''GPE'',
          er_start_pos = 0, er_end_pos = 2\<rparr>],
      t_cross_references :=
        [\<lparr>cr_id = 1, cr_from_article_id = 2, cr_to_article_id = 1, cr_to_paragraph = None\<rparr>,
         \<lparr>cr_id = 2, cr_from_article_id = 1, cr_to_article_id = 2,
          cr_to_paragraph = Some (py ''3'')\<rparr>]\<rparr>"

definition linked_tree :: "(nat, (nat \<times> entity) list \<times> reference list) article_view" where
  "linked_tree =
     \<lparr>av_id = 1, av_number = py ''1'', av_title = py ''Scope'', av_content = py ''text'',
      av_chapter = None, av_section = None,
      av_paragraphs =
        [\<lparr>v1_id = 2, v1_number = py ''10'', v1_text = py ''tenth'', v1_subparagraphs = []\<rparr>,
         \<lparr>v1_id = 1, v1_number = py ''2'', v1_text = py ''second'',
          v1_subparagraphs =
            [\<lparr>v2_id = 2, v2_letter = py ''a'', v2_text = py ''alpha'',
              v2_subsubparagraphs =
                [\<lparr>v3_id = 2, v3_number = py ''i'', v3_text = py ''one''\<rparr>,
                 \<lparr>v3_id = 1, v3_number = py ''ii'', v3_text = py ''two''\<rparr>]\<rparr>,
             \<lparr>v2_id = 1, v2_letter = py ''b'', v2_text = py ''beta'',
              v2_subsubparagraphs = []\<rparr>]\<rparr>],
      av_requirements =
        [\<lparr>vr_id = 2, vr_text = py ''It shall.'', vr_is_obligation = True, vr_is_right = False,
          vr_is_time_requirement = False\<rparr>],
      av_extras =
        ([(1, \<lparr>en_text = py ''EU'', en_label = py ''GPE'', en_start = 0, en_end = 2\<rparr>)],
         [\<lparr>ref_article = py ''2'', ref_paragraph = Some (py ''3'')\<rparr>])\<rparr>"

text \<open>
  What a store holds, row identifiers and references between rows left out: for each
  table the list of its rows in the order of insertion, each row reduced to the columns
  that come from the model. For a recital this is its content.
\<close>

record contents =
  c_chapters :: "(pystr \<times> pystr) list"
  c_sections :: "(pystr \<times> pystr) list"
  c_recitals :: "pystr list"
  c_articles :: "(pystr \<times> pystr \<times> pystr) list"
  c_paragraphs :: "(pystr \<times> pystr) list"
  c_subparagraphs :: "(pystr \<times> pystr) list"
  c_subsubparagraphs :: "(pystr \<times> pystr) list"
  c_requirements :: "(pystr \<times> bool \<times> bool \<times> bool) list"
  c_entities :: "entity list"
  c_definitions :: "(pystr \<times> pystr) list"
  c_cross_references :: "pystr option list"
  c_time_requirements :: "pystr list"
  c_key_actors :: "(pystr \<times> pystr) list"
  c_policy_sections :: "(pystr \<times> pystr \<times> pystr \<times> pystr) list"


definition no_rows :: contents where
  "no_rows =
     \<lparr>c_chapters = [], c_sections = [], c_recitals = [], c_articles = [], c_paragraphs = [],
      c_subparagraphs = [], c_subsubparagraphs = [], c_requirements = [], c_entities = [],
      c_definitions = [], c_cross_references = [], c_time_requirements = [], c_key_actors = [],
      c_policy_sections = []\<rparr>"

definition plus_rows :: "contents \<Rightarrow> contents \<Rightarrow> contents" where
  "plus_rows x y =
     \<lparr>c_chapters = c_chapters x @ c_chapters y,
      c_sections = c_sections x @ c_sections y,
      c_recitals = c_recitals x @ c_recitals y,
      c_articles = c_articles x @ c_articles y,
      c_paragraphs = c_paragraphs x @ c_paragraphs y,
      c_subparagraphs = c_subparagraphs x @ c_subparagraphs y,
      c_subsubparagraphs = c_subsubparagraphs x @ c_subsubparagraphs y,
      c_requirements = c_requirements x @ c_requirements y,
      c_entities = c_entities x @ c_entities y,
      c_definitions = c_definitions x @ c_definitions y,
      c_cross_references = c_cross_references x @ c_cross_references y,
      c_time_requirements = c_time_requirements x @ c_time_requirements y,
      c_key_actors = c_key_actors x @ c_key_actors y,
      c_policy_sections = c_policy_sections x @ c_policy_sections y\<rparr>"












section \<open>Verification\<close>

subsection \<open>Evaluation and substring search\<close>

lemmas eval_regex = lit_def cls_def star_g_def group_def opt_group_def lookahead_def at_end_def
  captured_def is_space_def is_digit_def digit_ranges_def ascii_digit_def ascii_lower_def
  in_chars_def newline_def strip_def

lemma str_in_sublist: "str_in sub s \<longleftrightarrow> sublist sub s"
  by (induction s) (auto simp: str_in_def sublist_Cons_right)

lemma str_in_iff: "str_in sub s \<longleftrightarrow> (\<exists>p q. s = p @ sub @ q)"
  by (simp add: str_in_sublist sublist_def)

lemma any_keyword_iff:
  "any_keyword keywords sent_text \<longleftrightarrow>
     (\<exists>keyword\<in>set keywords. \<exists>p q. lower sent_text = p @ keyword @ q)"
  by (simp add: any_keyword_def list_ex_iff str_in_iff)

subsection \<open>Lower-casing\<close>

lemma lower_runs_above: "list_all (\<lambda>(start, stop, step, low). 192 \<le> start) (tl lower_runs)"
  by (simp add: lower_runs_def)

lemma find_none_all: "list_all (\<lambda>x. \<not> P x) xs \<Longrightarrow> find P xs = None"
  by (induction xs) simp_all

lemma to_lower_ascii:
  assumes "c < 192"
  shows "to_lower c = (if 65 \<le> c \<and> c \<le> 90 then c + 32 else c)"
proof -
  define P :: "nat \<times> nat \<times> nat \<times> nat \<Rightarrow> bool"
    where "P = (\<lambda>(start, stop, step, low). start \<le> c \<and> c \<le> stop \<and> (c - start) mod step = 0)"
  have r: "lower_runs = (65, 90, 1, 97) # tl lower_runs"
    by (simp add: lower_runs_def)
  have "list_all (\<lambda>x. \<not> P x) (tl lower_runs)"
    using lower_runs_above assms by (auto simp: list_all_iff P_def)
  then have n: "find P (tl lower_runs) = None"
    by (rule find_none_all)
  have "find P lower_runs = (if P (65, 90, 1, 97) then Some (65, 90, 1, 97) else None)"
    by (subst r) (simp add: n)
  moreover have "P (65, 90, 1, 97) \<longleftrightarrow> 65 \<le> c \<and> c \<le> 90"
    by (simp add: P_def)
  moreover have "to_lower c =
      (case find P lower_runs of None \<Rightarrow> c | Some (start, stop, step, low) \<Rightarrow> low + (c - start))"
    unfolding to_lower_def P_def by (rule refl)
  ultimately show ?thesis by auto
qed

lemma do_lower_plain: "931 \<notin> set s \<Longrightarrow> do_lower seen s = concat (map to_lower_full s)"
  by (induction s arbitrary: seen) (simp_all add: lower_ucs4_def)

lemma lower_plain: "931 \<notin> set s \<Longrightarrow> lower s = concat (map to_lower_full s)"
  unfolding lower_def by (rule do_lower_plain)

lemma lower_ascii:
  assumes "\<forall>c\<in>set s. c < 128"
  shows "lower s = map (\<lambda>c. if 65 \<le> c \<and> c \<le> 90 then c + 32 else c) s"
proof -
  have "931 \<notin> set s" using assms by auto
  then have "lower s = concat (map to_lower_full s)" by (rule lower_plain)
  also have "\<dots> = map (\<lambda>c. if 65 \<le> c \<and> c \<le> 90 then c + 32 else c) s"
    using assms by (induction s) (simp_all add: to_lower_full_def to_lower_ascii)
  finally show ?thesis .
qed



subsection \<open>The normalized text is a single line\<close>

lemma plus_g_elim:
  "plus_g P k s = Some r \<Longrightarrow> \<exists>p s'. s = p @ s' \<and> p \<noteq> [] \<and> (\<forall>c\<in>set p. P c) \<and> k s' = Some r"
proof (induction s)
  case Nil
  then show ?case by simp
next
  case (Cons c cs)
  from Cons.prems have Pc: "P c" by (simp split: if_splits)
  show ?case
  proof (cases "plus_g P k cs")
    case None
    with Cons.prems Pc have "k cs = Some r" by simp
    with Pc show ?thesis by (intro exI[of _ "[c]"] exI[of _ cs]) simp
  next
    case (Some r')
    with Cons.prems Pc have "r' = r" by simp
    with Some Cons.IH obtain p s' where "cs = p @ s'" "p \<noteq> []" "\<forall>c\<in>set p. P c" "k s' = Some r"
      by blast
    with Pc show ?thesis by (intro exI[of _ "c # p"] exI[of _ s']) simp
  qed
qed

lemma star_g_elim:
  "star_g P k s = Some r \<Longrightarrow> \<exists>p s'. s = p @ s' \<and> (\<forall>c\<in>set p. P c) \<and> k s' = Some r"
proof (cases "plus_g P k s")
  case None
  assume "star_g P k s = Some r"
  with None have "k s = Some r" by (simp add: star_g_def)
  then show ?thesis by (intro exI[of _ "[]"] exI[of _ s]) simp
next
  case (Some r')
  assume "star_g P k s = Some r"
  with Some have "plus_g P k s = Some r" by (simp add: star_g_def)
  from plus_g_elim[OF this] show ?thesis by blast
qed

lemma plus_g_total:
  "plus_g P (\<lambda>s. Some (f s)) s =
     (case s of [] \<Rightarrow> None | c # cs \<Rightarrow> if P c then Some (f (dropWhile P cs)) else None)"
proof (induction s)
  case Nil
  then show ?case by simp
next
  case (Cons c cs)
  then show ?case by (cases cs) (simp_all split: if_splits)
qed

lemma star_g_total: "star_g P (\<lambda>s. Some (f s)) s = Some (f (dropWhile P s))"
  by (cases s) (simp_all add: star_g_def plus_g_total)

lemma lit_elim: "lit l k s = Some r \<Longrightarrow> \<exists>s'. s = l @ s' \<and> k s' = Some r"
  by (auto simp: lit_def prefix_def split: if_splits)

lemma cls_elim: "cls P k s = Some r \<Longrightarrow> \<exists>c s'. s = c # s' \<and> P c \<and> k s' = Some r"
  by (auto simp: cls_def split: list.splits if_splits)

lemma captured_append: "captured (p @ s) s = p"
  by (simp add: captured_def)

lemma whitespace_run_eq:
  "whitespace_run (c # cs) = (if is_space c then Some ((), dropWhile is_space cs) else None)"
  unfolding whitespace_run_def by (simp add: plus_g_total[where f="\<lambda>s. ((), s)"])

lemma collapse_whitespace: "re_sub whitespace_run (\<lambda>_. py '' '') s = collapse_runs s"
proof (induction s rule: collapse_runs.induct)
  case 1
  then show ?case by simp
next
  case (2 c cs)
  have "length (dropWhile is_space cs) < Suc (length cs)"
    by (simp add: le_imp_less_Suc length_dropWhile_le)
  with 2 show ?case by (simp add: whitespace_run_eq)
qed


lemma tidy_Cons:
  "tidy (c # s) \<longleftrightarrow> (is_space c \<longrightarrow> c = 32 \<and> \<not> starts_ws s) \<and> tidy s"
  by (cases s) (auto simp: starts_ws_def)

lemma tidy_append:
  "tidy (a @ b) \<longleftrightarrow> tidy a \<and> tidy b \<and> \<not> (a \<noteq> [] \<and> is_space (last a) \<and> starts_ws b)"
proof (induction a)
  case Nil
  then show ?case by simp
next
  case (Cons c a)
  then show ?case
    by (cases a; cases b) (auto simp: tidy_Cons starts_ws_def)
qed

lemma tidy_drop: "tidy s \<Longrightarrow> tidy (drop n s)"
  by (metis append_take_drop_id tidy_append)

lemma tidy_no_space: "\<forall>c\<in>set s. \<not> is_space c \<Longrightarrow> tidy s"
  by (induction s) (auto simp: tidy_Cons)

lemma starts_ws_append: "a \<noteq> [] \<Longrightarrow> starts_ws (a @ b) = starts_ws a"
  by (cases a) (auto simp: starts_ws_def)

lemma starts_ws_dropWhile: "\<not> starts_ws (dropWhile is_space s)"
  by (induction s) (auto simp: starts_ws_def)

lemma tidy_collapse_runs: "tidy (collapse_runs s)"
proof (induction s rule: collapse_runs.induct)
  case 1
  then show ?case by simp
next
  case (2 c cs)
  have nws: "\<not> starts_ws (collapse_runs (dropWhile is_space cs))"
  proof (cases "dropWhile is_space cs")
    case Nil
    then have "collapse_runs (dropWhile is_space cs) = []" by (simp only: collapse_runs.simps)
    then show ?thesis by (simp add: starts_ws_def)
  next
    case (Cons d ds)
    then have "\<not> is_space d" by (metis hd_dropWhile list.sel(1) list.distinct(1))
    with Cons show ?thesis by (simp add: starts_ws_def)
  qed
  show ?case
  proof (cases "is_space c")
    case True
    with 2 nws show ?thesis by (simp add: tidy_Cons)
  next
    case False
    with 2 show ?thesis by (simp add: tidy_Cons)
  qed
qed

lemma str_replace_tidy:
  "new \<noteq> [] \<Longrightarrow> \<forall>c\<in>set new. \<not> is_space c \<Longrightarrow> tidy s \<Longrightarrow>
    tidy (str_replace old new s) \<and> (starts_ws (str_replace old new s) \<longrightarrow> starts_ws s)"
proof (induction old new s rule: str_replace.induct)
  case (1 old new)
  then show ?case by simp
next
  case (2 old new c cs)
  show ?case
  proof (cases "old \<noteq> [] \<and> prefix old (c # cs)")
    case True
    let ?r = "str_replace old new (drop (length old) (c # cs))"
    from "2.prems"(3) have "tidy (drop (length old) (c # cs))" by (rule tidy_drop)
    with "2.IH"(1)[OF True "2.prems"(1,2)] have r: "tidy ?r" by simp
    from "2.prems"(1,2) have "tidy new" "\<not> is_space (last new)" "\<not> starts_ws new"
      by (auto simp: tidy_no_space starts_ws_def split: list.splits)
    with r True "2.prems"(1) show ?thesis
      by (simp add: tidy_append starts_ws_append)
  next
    case False
    let ?r = "str_replace old new cs"
    from "2.prems"(3) have c: "is_space c \<longrightarrow> c = 32 \<and> \<not> starts_ws cs" and cs: "tidy cs"
      by (simp_all add: tidy_Cons)
    from "2.IH"(2)[OF False "2.prems"(1,2) cs] have "tidy ?r" "starts_ws ?r \<longrightarrow> starts_ws cs"
      by simp_all
    with c False show ?thesis
      by (auto simp: tidy_Cons starts_ws_def)
  qed
qed


lemma is_space_not_digit: "is_space c \<Longrightarrow> \<not> is_digit c"
  unfolding is_space_def
  by (elim disjE conjE) (simp_all add: is_digit_def digit_ranges_def)

lemma is_digit_not_space: "is_digit c \<Longrightarrow> \<not> is_space c"
  by (blast dest: is_space_not_digit)

lemma group_plus_g_elim:
  assumes "group (plus_g P) k s = Some r"
  shows "\<exists>p s'. s = p @ s' \<and> p \<noteq> [] \<and> (\<forall>c\<in>set p. P c) \<and> k p s' = Some r"
proof -
  from assms have "plus_g P (\<lambda>s'. k (captured s s') s') s = Some r"
    by (simp add: group_def)
  from plus_g_elim[OF this] obtain p s' where "s = p @ s'" "p \<noteq> []" "\<forall>c\<in>set p. P c"
    "k (captured s s') s' = Some r"
    by blast
  then show ?thesis by (auto simp: captured_append)
qed

lemma header_dash_elim:
  assumes "header_dash s = Some (g, rest)"
  shows "g \<noteq> [] \<and> (\<forall>c\<in>set g. is_digit c) \<and> \<not> starts_ws rest \<and> (\<exists>p. s = p @ rest)"
proof -
  let ?dash = "\<lambda>c. c = em_dash \<or> c = en_dash \<or> c = of_char CHR ''-''"
  let ?k = "\<lambda>num. star_g is_space (cls ?dash (star_g is_space (\<lambda>s. Some (num, s))))"
  from assms obtain s0 where s0: "s = py ''Article'' @ s0"
    and m0: "plus_g is_space (group (plus_g is_digit) ?k) s0 = Some (g, rest)"
    unfolding header_dash_def by (blast dest: lit_elim)
  from plus_g_elim[OF m0] obtain p1 s1 where s1: "s0 = p1 @ s1"
    and m1: "group (plus_g is_digit) ?k s1 = Some (g, rest)"
    by blast
  from group_plus_g_elim[OF m1] obtain p2 s2 where s2: "s1 = p2 @ s2"
    and d: "p2 \<noteq> []" "\<forall>c\<in>set p2. is_digit c" and m2: "?k p2 s2 = Some (g, rest)"
    by blast
  from star_g_elim[OF m2] obtain p3 s3 where s3: "s2 = p3 @ s3"
    and m3: "cls ?dash (star_g is_space (\<lambda>s. Some (p2, s))) s3 = Some (g, rest)"
    by blast
  from cls_elim[OF m3] obtain c s4 where s4: "s3 = c # s4"
    and m4: "star_g is_space (\<lambda>s. Some (p2, s)) s4 = Some (g, rest)"
    by blast
  from m4 have g: "g = p2" and rest: "rest = dropWhile is_space s4"
    by (simp_all add: star_g_total[where f="\<lambda>s. (p2, s)"])
  have "\<not> starts_ws rest" unfolding rest by (rule starts_ws_dropWhile)
  moreover have "s = (py ''Article'' @ p1 @ p2 @ p3 @ [c] @ takeWhile is_space s4) @ rest"
    unfolding s0 s1 s2 s3 s4 rest by simp
  ultimately show ?thesis using d g by blast
qed

lemma tidy_header:
  assumes "g \<noteq> []" "\<forall>c\<in>set g. is_digit c"
  shows "tidy (py ''Article '' @ g @ py '' - '')"
proof -
  from assms have "\<forall>c\<in>set g. \<not> is_space c" by (blast dest: is_digit_not_space)
  then have "tidy g" by (rule tidy_no_space)
  moreover from assms have "\<not> is_space (last g)" "\<not> starts_ws g"
    by (auto simp: starts_ws_def dest: is_digit_not_space split: list.splits)
  ultimately show ?thesis using assms(1)
    by (simp add: tidy_append tidy_Cons starts_ws_def is_space_def split: list.splits)
qed

lemma re_sub_tidy:
  assumes m: "\<And>s g rest. m s = Some (g, rest) \<Longrightarrow>
      (\<exists>p. s = p @ rest) \<and> \<not> starts_ws rest \<and> tidy (repl g) \<and> repl g \<noteq> [] \<and> \<not> starts_ws (repl g)"
  shows "tidy s \<Longrightarrow> tidy (re_sub m repl s) \<and> (starts_ws (re_sub m repl s) \<longrightarrow> starts_ws s)"
proof (induction s rule: length_induct)
  case (1 s)
  show ?case
  proof (cases s)
    case Nil
    then show ?thesis by simp
  next
    case (Cons c cs)
    let ?r = "re_sub m repl cs"
    from "1.prems" Cons have c: "is_space c \<longrightarrow> c = 32 \<and> \<not> starts_ws cs" and cs: "tidy cs"
      by (simp_all add: tidy_Cons)
    from "1.IH" Cons cs have r: "tidy ?r" "starts_ws ?r \<longrightarrow> starts_ws cs"
      by simp_all
    from c r have keep: "tidy (c # ?r) \<and> (starts_ws (c # ?r) \<longrightarrow> starts_ws (c # cs))"
      by (auto simp: tidy_Cons starts_ws_def)
    show ?thesis
    proof (cases "m (c # cs)")
      case None
      with keep Cons show ?thesis by simp
    next
      case (Some a)
      obtain g rest where a: "a = (g, rest)" by (cases a)
      show ?thesis
      proof (cases "length rest < length (c # cs)")
        case False
        with Some a keep Cons show ?thesis by simp
      next
        case True
        from m[OF Some[unfolded a]] obtain p where p: "c # cs = p @ rest" and nws: "\<not> starts_ws rest"
          and rg: "tidy (repl g)" "repl g \<noteq> []" "\<not> starts_ws (repl g)"
          by blast
        from "1.prems" Cons p have "tidy rest" by (simp add: tidy_append)
        with "1.IH" True Cons have "tidy (re_sub m repl rest)"
          "starts_ws (re_sub m repl rest) \<longrightarrow> starts_ws rest"
          by simp_all
        with nws rg have "tidy (repl g @ re_sub m repl rest)"
          "\<not> starts_ws (repl g @ re_sub m repl rest)"
          by (simp_all add: tidy_append starts_ws_append)
        with Some a True Cons show ?thesis by simp
      qed
    qed
  qed
qed

lemma tidy_preprocess_text: "tidy (preprocess_text text0)"
proof -
  let ?t1 = "re_sub whitespace_run (\<lambda>_. py '' '') text0"
  let ?t2 = "str_replace (py ''|'') (py ''I'') ?t1"
  let ?t3 = "str_replace (py ''l1'') (py ''h'') ?t2"
  let ?t4 = "str_replace [em_dash] (py ''-'') ?t3"
  let ?t5 = "str_replace [en_dash] (py ''-'') ?t4"
  have t1: "tidy ?t1" by (simp only: collapse_whitespace tidy_collapse_runs)
  have t2: "tidy ?t2"
    using str_replace_tidy[OF _ _ t1, of "py ''I''" "py ''|''"] by (simp add: is_space_def)
  have t3: "tidy ?t3"
    using str_replace_tidy[OF _ _ t2, of "py ''h''" "py ''l1''"] by (simp add: is_space_def)
  have t4: "tidy ?t4"
    using str_replace_tidy[OF _ _ t3, of "py ''-''" "[em_dash]"] by (simp add: is_space_def)
  have t5: "tidy ?t5"
    using str_replace_tidy[OF _ _ t4, of "py ''-''" "[en_dash]"] by (simp add: is_space_def)
  have m: "(\<exists>p. s = p @ rest) \<and> \<not> starts_ws rest \<and> tidy (py ''Article '' @ g @ py '' - '') \<and>
        py ''Article '' @ g @ py '' - '' \<noteq> [] \<and> \<not> starts_ws (py ''Article '' @ g @ py '' - '')"
    if "header_dash s = Some (g, rest)" for s g rest
    using header_dash_elim[OF that] tidy_header[of g] by (simp add: starts_ws_def is_space_def)
  have "tidy (re_sub header_dash (\<lambda>num. py ''Article '' @ num @ py '' - '') ?t5)"
    using re_sub_tidy[of header_dash "\<lambda>num. py ''Article '' @ num @ py '' - ''", OF m t5]
    by simp
  then show ?thesis by (simp add: preprocess_text_def Let_def)
qed

lemma tidy_set: "tidy s \<Longrightarrow> c \<in> set s \<Longrightarrow> is_space c \<Longrightarrow> c = 32"
  by (induction s) (auto simp: tidy_Cons)

lemma tidy_nth: "tidy s \<Longrightarrow> Suc i < length s \<Longrightarrow> \<not> (is_space (s ! i) \<and> is_space (s ! Suc i))"
proof (induction s arbitrary: i)
  case Nil
  then show ?case by simp
next
  case (Cons c s)
  show ?case
  proof (cases i)
    case 0
    with Cons.prems show ?thesis by (cases s) (auto simp: tidy_Cons starts_ws_def)
  next
    case (Suc j)
    with Cons show ?thesis by (simp add: tidy_Cons)
  qed
qed

text \<open>
  Claim C10. For every input string, the output of \<open>preprocess_text\<close> contains no newline
  and no two adjacent whitespace characters. The first substitution replaces every maximal
  whitespace run by one space (it computes \<open>collapse_runs\<close>); after all six steps the only
  whitespace character left is the space, and no two of them are adjacent. The text that
  the header patterns scan later is therefore a single line.
\<close>

theorem preprocess_text_single_line:
  "re_sub whitespace_run (\<lambda>_. py '' '') text0 = collapse_runs text0 \<and>
   newline \<notin> set (preprocess_text text0) \<and>
   (\<forall>c\<in>set (preprocess_text text0). is_space c \<longrightarrow> c = of_char CHR '' '') \<and>
   (\<forall>i. Suc i < length (preprocess_text text0) \<longrightarrow>
      \<not> (is_space (preprocess_text text0 ! i) \<and> is_space (preprocess_text text0 ! Suc i)))"
proof -
  note t = tidy_preprocess_text[of text0]
  have "newline \<notin> set (preprocess_text text0)"
    using tidy_set[OF t, of newline] by (auto simp: newline_def is_space_def)
  moreover have "\<forall>c\<in>set (preprocess_text text0). is_space c \<longrightarrow> c = of_char CHR '' ''"
    using tidy_set[OF t] by simp
  moreover have "\<forall>i. Suc i < length (preprocess_text text0) \<longrightarrow>
      \<not> (is_space (preprocess_text text0 ! i) \<and> is_space (preprocess_text text0 ! Suc i))"
    using tidy_nth[OF t] by blast
  ultimately show ?thesis using collapse_whitespace by blast
qed

theorem preprocess_text_single_line_witness:
  "preprocess_text (py ''a'' @ [newline, newline] @ py ''Article 5'' @ [em_dash] @ py ''x'')
     = py ''a Article 5 - x'' \<and>
   newline \<notin> set (py ''a Article 5 - x'') \<and>
   of_char CHR '' '' \<in> set (py ''a Article 5 - x'') \<and> is_space (of_char CHR '' '') \<and>
   Suc 1 < length (py ''a Article 5 - x'') \<and>
   \<not> (is_space (py ''a Article 5 - x'' ! 1) \<and> is_space (py ''a Article 5 - x'' ! Suc 1))"
proof -
  let ?t = "py ''a'' @ [newline, newline] @ py ''Article 5'' @ [em_dash] @ py ''x''"
  have e: "preprocess_text ?t = py ''a Article 5 - x''"
    by (simp add: preprocess_text_def Let_def whitespace_run_def header_dash_def lit_def cls_def
        star_g_def group_def captured_def is_space_def is_digit_def digit_ranges_def em_dash_def
        en_dash_def newline_def)
  have s: "is_space (of_char CHR '' '')"
    by (simp add: is_space_def)
  from preprocess_text_single_line[of ?t] s show ?thesis
    unfolding e by (simp add: newline_def)
qed

subsection \<open>Enclosing chapter and section; the synthetic paragraph\<close>

lemma set_ends_has_end: "p \<in> set (set_ends n ps) \<Longrightarrow> pos_end p \<noteq> None"
  by (induction n ps rule: set_ends.induct) auto

lemma enclosing_first_holding:
  "\<forall>p\<in>set ps. pos_end p \<noteq> None \<Longrightarrow> enclosing off ps = first_holding off ps"
  by (induction ps) (auto simp: first_holding_def holds_offset_def split: option.splits)

lemma article_loop_chapter:
  "map a_chapter (article_loop text cps sps prev ms) =
     map (\<lambda>off. enclosing off cps)
       ((case prev of None \<Rightarrow> [] | Some (prev_start, _) \<Rightarrow> [prev_start]) @ map fst ms)"
proof (induction ms arbitrary: prev)
  case Nil
  then show ?case by (simp add: make_article_def split: option.splits prod.splits)
next
  case (Cons m ms)
  obtain start g1 g2 where m: "m = (start, (g1, g2))" by (cases m) auto
  show ?case
    unfolding m by (simp add: Cons.IH make_article_def split: option.splits prod.splits)
qed

lemma article_loop_section:
  "map a_section (article_loop text cps sps prev ms) =
     map (\<lambda>off. enclosing off sps)
       ((case prev of None \<Rightarrow> [] | Some (prev_start, _) \<Rightarrow> [prev_start]) @ map fst ms)"
proof (induction ms arbitrary: prev)
  case Nil
  then show ?case by (simp add: make_article_def split: option.splits prod.splits)
next
  case (Cons m ms)
  obtain start g1 g2 where m: "m = (start, (g1, g2))" by (cases m) auto
  show ?case
    unfolding m by (simp add: Cons.IH make_article_def split: option.splits prod.splits)
qed

text \<open>
  Claim C5. For every text and every article header found in it, the chapter of the article
  is the first entry of the chapter positions, in document order, whose half-open
  interval holds the start offset of the header, and \<open>None\<close> when no entry holds it; the
  section is determined in the same way from the section positions alone.
\<close>

theorem article_enclosing_first_interval:
  "map a_chapter (extract_articles_with_structure text) =
     map (\<lambda>(off, _). first_holding off (chapter_positions text)) (finditer article_pattern 0 text) \<and>
   map a_section (extract_articles_with_structure text) =
     map (\<lambda>(off, _). first_holding off (section_positions text)) (finditer article_pattern 0 text)"
proof -
  have c: "enclosing off (chapter_positions text) = first_holding off (chapter_positions text)" for off
    by (rule enclosing_first_holding) (auto simp: chapter_positions_def dest: set_ends_has_end)
  have s: "enclosing off (section_positions text) = first_holding off (section_positions text)" for off
    by (rule enclosing_first_holding) (auto simp: section_positions_def dest: set_ends_has_end)
  show ?thesis
    unfolding extract_articles_with_structure_def article_loop_chapter article_loop_section
    by (simp add: c s case_prod_beta')
qed

text \<open>
  Claim C6. When the numbered-paragraph pattern finds no match in the content of an article
  (its headers removed and the result stripped), the decomposer returns exactly one
  paragraph, numbered \<open>1\<close>, whose text is that whole content and which has no
  subparagraphs. Every article therefore leaves the decomposer with at least one paragraph.
\<close>

theorem synthetic_paragraph:
  "(finditer paragraph_pattern 0 (strip_header (a_content article)) = [] \<longrightarrow>
      a_paragraphs (extract_paragraphs_and_subparagraphs article) =
        [\<lparr>p_number = py ''1'', p_text = strip_header (a_content article), p_subparagraphs = []\<rparr>]) \<and>
   1 \<le> length (a_paragraphs (extract_paragraphs_and_subparagraphs article))"
  by (auto simp: extract_paragraphs_and_subparagraphs_def Let_def intro: Suc_leI)

theorem synthetic_paragraph_witness:
  "finditer paragraph_pattern 0
     (strip_header (a_content \<lparr>a_number = py ''3'', a_title = py ''Title'',
        a_content = py ''Article 3 - Title'' @ [newline] @ py ''no numbers'',
        a_chapter = None, a_section = None, a_paragraphs = [], a_requirements = [],
        a_entities = []\<rparr>)) = [] \<and>
   a_paragraphs (extract_paragraphs_and_subparagraphs
     \<lparr>a_number = py ''3'', a_title = py ''Title'',
      a_content = py ''Article 3 - Title'' @ [newline] @ py ''no numbers'',
      a_chapter = None, a_section = None, a_paragraphs = [], a_requirements = [],
      a_entities = []\<rparr>) =
     [\<lparr>p_number = py ''1'', p_text = py ''no numbers'', p_subparagraphs = []\<rparr>]"
proof -
  let ?a = "\<lparr>a_number = py ''3'', a_title = py ''Title'',
      a_content = py ''Article 3 - Title'' @ [newline] @ py ''no numbers'',
      a_chapter = None, a_section = None, a_paragraphs = [], a_requirements = [],
      a_entities = []\<rparr>"
  have c: "strip_header (a_content ?a) = py ''no numbers''"
    by (simp add: strip_header_def article_pattern_def eval_regex)
  have "finditer paragraph_pattern 0 (py ''no numbers'') = []"
    by (simp add: paragraph_pattern_def paragraph_ahead_def eval_regex)
  then have h: "finditer paragraph_pattern 0 (strip_header (a_content ?a)) = []"
    by (simp only: c)
  note p = synthetic_paragraph[of ?a, THEN conjunct1, THEN mp, OF h]
  from h p[unfolded c] show ?thesis by (rule conjI)
qed

subsection \<open>Requirements\<close>

lemma classify_sentence_step:
  "classify_sentence an pn l s (rs, ts) =
     (rs @ map requirement_of (filter stored [(pn, l, strip s)]),
      ts @ map (time_requirement_of an) (filter stored_timed [(pn, l, strip s)]))"
  by (simp add: classify_sentence_def Let_def stored_def stored_timed_def
      requirement_of_def time_requirement_of_def obligation_flag_def right_flag_def
      time_flag_def)

lemma classify_sentence_fold:
  "fold (classify_sentence an pn l) ss (rs, ts) =
     (rs @ map requirement_of (filter stored (map (\<lambda>sent. (pn, l, strip sent)) ss)),
      ts @ map (time_requirement_of an) (filter stored_timed (map (\<lambda>sent. (pn, l, strip sent)) ss)))"
proof (induction ss arbitrary: rs ts)
  case Nil
  then show ?case by simp
next
  case (Cons s ss)
  show ?case
    by (simp add: Cons.IH classify_sentence_step)
qed

lemma classify_subparagraph_fold:
  "fold (classify_subparagraph nlp an pn) sps (rs, ts) =
     (rs @ map requirement_of (filter stored (concat (map (\<lambda>subpara.
              map (\<lambda>sent. (pn, Some (sp_letter subpara), strip sent)) (sents nlp (sp_text subpara))) sps))),
      ts @ map (time_requirement_of an) (filter stored_timed (concat (map (\<lambda>subpara.
              map (\<lambda>sent. (pn, Some (sp_letter subpara), strip sent)) (sents nlp (sp_text subpara))) sps))))"
proof (induction sps arbitrary: rs ts)
  case Nil
  then show ?case by simp
next
  case (Cons sp sps)
  have "classify_subparagraph nlp an pn sp (rs, ts) =
     (rs @ map requirement_of (filter stored
        (map (\<lambda>sent. (pn, Some (sp_letter sp), strip sent)) (sents nlp (sp_text sp)))),
      ts @ map (time_requirement_of an) (filter stored_timed
        (map (\<lambda>sent. (pn, Some (sp_letter sp), strip sent)) (sents nlp (sp_text sp)))))"
    by (simp add: classify_subparagraph_def classify_sentence_fold)
  then show ?case
    by (simp add: Cons.IH)
qed

lemma classify_paragraph_fold:
  "fold (classify_paragraph nlp (a_number article)) ps (rs, ts) =
     (rs @ map requirement_of (filter stored
              (segmented_sentences nlp (article\<lparr>a_paragraphs := ps\<rparr>))),
      ts @ map (time_requirement_of (a_number article)) (filter stored_timed
              (segmented_sentences nlp (article\<lparr>a_paragraphs := ps\<rparr>))))"
proof (induction ps arbitrary: rs ts)
  case Nil
  then show ?case by (simp add: segmented_sentences_def)
next
  case (Cons p ps)
  have "classify_paragraph nlp (a_number article) p (rs, ts) =
     (rs @ map requirement_of (filter stored
        (segmented_sentences nlp (article\<lparr>a_paragraphs := [p]\<rparr>))),
      ts @ map (time_requirement_of (a_number article)) (filter stored_timed
        (segmented_sentences nlp (article\<lparr>a_paragraphs := [p]\<rparr>))))"
    by (simp add: classify_paragraph_def classify_sentence_fold classify_subparagraph_fold
        segmented_sentences_def)
  then show ?case
    by (simp add: Cons.IH) (simp add: segmented_sentences_def)
qed

text \<open>
  Claim C1. For every article and every sentence the external segmenter returns for its
  paragraph and subparagraph texts, a requirement is stored exactly when the obligation
  flag or the right flag of the sentence holds, and a time requirement is added to the
  parser's list exactly when a requirement was stored and the time flag holds too; so a
  sentence with the time flag alone leaves no record. A flag holds when the lower-cased
  sentence contains one of the keywords of its fixed list.
\<close>

theorem requirement_stored_iff_flag:
  "a_requirements (fst (extract_requirements nlp article time_requirements)) =
     map requirement_of (filter stored (segmented_sentences nlp article)) \<and>
   snd (extract_requirements nlp article time_requirements) =
     time_requirements @
     map (time_requirement_of (a_number article))
       (filter stored_timed (segmented_sentences nlp article)) \<and>
   (obligation_flag t \<longleftrightarrow> (\<exists>k\<in>set obligation_keywords. \<exists>p q. lower t = p @ k @ q)) \<and>
   (right_flag t \<longleftrightarrow> (\<exists>k\<in>set right_keywords. \<exists>p q. lower t = p @ k @ q)) \<and>
   (time_flag t \<longleftrightarrow> (\<exists>k\<in>set time_keywords. \<exists>p q. lower t = p @ k @ q))"
  using classify_paragraph_fold[of nlp article "a_paragraphs article" "[]" time_requirements]
  by (simp add: extract_requirements_def Let_def obligation_flag_def right_flag_def
      time_flag_def any_keyword_iff split: prod.splits)

theorem requirement_stored_iff_flag_witness:
  "a_requirements (fst (extract_requirements \<lparr>sents = (\<lambda>t. [t]), ents = (\<lambda>t. [])\<rparr>
      \<lparr>a_number = py ''12'', a_title = py ''T'', a_content = py ''C'', a_chapter = None,
       a_section = None,
       a_paragraphs =
         [\<lparr>p_number = py ''1'', p_text = py ''within thirty days'', p_subparagraphs = []\<rparr>,
          \<lparr>p_number = py ''2'', p_text = py ''It SHALL reply within thirty days.'',
            p_subparagraphs = []\<rparr>],
       a_requirements = [], a_entities = []\<rparr> [])) =
     [\<lparr>rq_paragraph = py ''2'', rq_subparagraph = None,
       rq_text = py ''It SHALL reply within thirty days.'', rq_is_obligation = True,
       rq_is_right = False, rq_is_time_requirement = True\<rparr>] \<and>
   snd (extract_requirements \<lparr>sents = (\<lambda>t. [t]), ents = (\<lambda>t. [])\<rparr>
      \<lparr>a_number = py ''12'', a_title = py ''T'', a_content = py ''C'', a_chapter = None,
       a_section = None,
       a_paragraphs =
         [\<lparr>p_number = py ''1'', p_text = py ''within thirty days'', p_subparagraphs = []\<rparr>,
          \<lparr>p_number = py ''2'', p_text = py ''It SHALL reply within thirty days.'',
            p_subparagraphs = []\<rparr>],
       a_requirements = [], a_entities = []\<rparr> []) =
     [\<lparr>tr_article = py ''12'', tr_paragraph = py ''2'', tr_subparagraph = None,
       tr_text = py ''It SHALL reply within thirty days.''\<rparr>] \<and>
   time_flag (py ''within thirty days'') \<and> \<not> obligation_flag (py ''within thirty days'') \<and>
   \<not> right_flag (py ''within thirty days'')"
proof -
  let ?n = "\<lparr>sents = (\<lambda>t. [t]), ents = (\<lambda>t. [])\<rparr> :: nlp"
  let ?a = "\<lparr>a_number = py ''12'', a_title = py ''T'', a_content = py ''C'', a_chapter = None,
       a_section = None,
       a_paragraphs =
         [\<lparr>p_number = py ''1'', p_text = py ''within thirty days'', p_subparagraphs = []\<rparr>,
          \<lparr>p_number = py ''2'', p_text = py ''It SHALL reply within thirty days.'',
            p_subparagraphs = []\<rparr>],
       a_requirements = [], a_entities = []\<rparr>"
  have f1: "time_flag (py ''within thirty days'')"
    "\<not> obligation_flag (py ''within thirty days'')" "\<not> right_flag (py ''within thirty days'')"
    by (simp_all add: time_flag_def obligation_flag_def right_flag_def any_keyword_def
        str_in_def lower_ascii time_keywords_def obligation_keywords_def
        right_keywords_def)
  have f2: "time_flag (py ''It SHALL reply within thirty days.'')"
    "obligation_flag (py ''It SHALL reply within thirty days.'')"
    "\<not> right_flag (py ''It SHALL reply within thirty days.'')"
    by (simp_all add: time_flag_def obligation_flag_def right_flag_def any_keyword_def
        str_in_def lower_ascii time_keywords_def obligation_keywords_def
        right_keywords_def)
  have s: "segmented_sentences ?n ?a =
      [(py ''1'', None, py ''within thirty days''),
       (py ''2'', None, py ''It SHALL reply within thirty days.'')]"
    by (simp add: segmented_sentences_def strip_def is_space_def)
  have r: "map requirement_of (filter stored (segmented_sentences ?n ?a)) =
      [\<lparr>rq_paragraph = py ''2'', rq_subparagraph = None,
        rq_text = py ''It SHALL reply within thirty days.'', rq_is_obligation = True,
        rq_is_right = False, rq_is_time_requirement = True\<rparr>]"
    unfolding s using f1 f2 by (simp add: stored_def requirement_of_def)
  have t: "[] @ map (time_requirement_of (a_number ?a))
        (filter stored_timed (segmented_sentences ?n ?a)) =
      [\<lparr>tr_article = py ''12'', tr_paragraph = py ''2'', tr_subparagraph = None,
        tr_text = py ''It SHALL reply within thirty days.''\<rparr>]"
    unfolding s using f1 f2 by (simp add: stored_timed_def time_requirement_of_def)
  note th = requirement_stored_iff_flag[of ?n ?a "[]"]
  from trans[OF th[THEN conjunct1] r] trans[OF th[THEN conjunct2, THEN conjunct1] t] f1
  show ?thesis by blast
qed


subsection \<open>Cross-references\<close>

lemma map_of_dict_set: "map_of (dict_set d k v) = (map_of d)(k \<mapsto> v)"
  by (induction d k v rule: dict_set.induct) auto

lemma keys_dict_set: "fst ` set (dict_set d k v) = insert k (fst ` set d)"
  by (induction d k v rule: dict_set.induct) auto

lemma map_of_snoc_new: "map_of d k = None \<Longrightarrow> map_of (d @ [(k, v)]) = (map_of d)(k \<mapsto> v)"
  by (auto simp: fun_eq_iff map_add_def split: option.splits)

lemma refs_of_add_reference:
  "refs_of (add_reference d n r) m = (if m = n then add_new r (refs_of d n) else refs_of d m)"
  by (auto simp: refs_of_def add_reference_def add_new_def map_of_dict_set map_of_snoc_new
      split: option.splits)

lemma refs_of_article_references_aux:
  "refs_of (fold (\<lambda>reference cross_references.
             if ref_article reference \<noteq> n
             then add_reference cross_references n reference
             else cross_references) rs d) m =
     (if m = n then fold add_new (filter (\<lambda>r. ref_article r \<noteq> n) rs) (refs_of d n)
      else refs_of d m)"
proof (induction rs arbitrary: d)
  case Nil
  then show ?case by simp
next
  case (Cons r rs)
  show ?case by (simp add: Cons.IH refs_of_add_reference)
qed

lemma refs_of_article_references:
  "refs_of (article_references a d) m =
     (if m = a_number a
      then fold add_new (filter (\<lambda>r. ref_article r \<noteq> m) (references_in (a_content a))) (refs_of d m)
      else refs_of d m)"
  unfolding article_references_def by (simp add: refs_of_article_references_aux)

lemma refs_of_fold_articles:
  "refs_of (fold article_references arts d) m =
     fold add_new
       (filter (\<lambda>r. ref_article r \<noteq> m)
          (concat (map (\<lambda>a. references_in (a_content a)) (filter (\<lambda>a. a_number a = m) arts))))
       (refs_of d m)"
proof (induction arts arbitrary: d)
  case Nil
  then show ?case by simp
next
  case (Cons a arts)
  show ?case by (simp add: Cons.IH refs_of_article_references)
qed

lemma remdups_append_mem: "x \<in> set b \<Longrightarrow> remdups (a @ x # b) = remdups (a @ b)"
  by (induction a) auto

lemma fold_add_new:
  "distinct acc \<Longrightarrow> fold add_new xs acc = rev (remdups (rev (acc @ xs)))"
proof (induction xs arbitrary: acc)
  case Nil
  then show ?case by (simp add: distinct_remdups_id)
next
  case (Cons x xs)
  show ?case
  proof (cases "x \<in> set acc")
    case True
    then have "remdups (rev xs @ x # rev acc) = remdups (rev xs @ rev acc)"
      by (intro remdups_append_mem) simp
    with True Cons show ?thesis by (simp add: add_new_def)
  next
    case False
    with Cons.prems have "distinct (acc @ [x])" by simp
    from Cons.IH[OF this] False show ?thesis by (simp add: add_new_def)
  qed
qed

text \<open>
  Claim C7. For every list of articles and every source article number \<open>n\<close>, the references
  recorded for \<open>n\<close> are the matches of the reference pattern in the contents of the articles
  numbered \<open>n\<close>, without the matches whose target is \<open>n\<close> itself and without the repetitions
  of a pair (target article, target paragraph), in first-seen order. Hence no reference
  points from an article to itself and the list of a source holds no pair twice.
\<close>

theorem cross_references_first_seen:
  "refs_of (extract_cross_references articles) n =
     first_seen (filter (\<lambda>r. ref_article r \<noteq> n)
       (concat (map (\<lambda>a. references_in (a_content a)) (filter (\<lambda>a. a_number a = n) articles)))) \<and>
   (\<forall>r\<in>set (refs_of (extract_cross_references articles) n). ref_article r \<noteq> n) \<and>
   distinct (refs_of (extract_cross_references articles) n)"
proof -
  let ?c = "filter (\<lambda>r. ref_article r \<noteq> n)
       (concat (map (\<lambda>a. references_in (a_content a)) (filter (\<lambda>a. a_number a = n) articles)))"
  have e: "refs_of (extract_cross_references articles) n = first_seen ?c"
    unfolding extract_cross_references_def refs_of_fold_articles first_seen_def
    using fold_add_new[of "[]" ?c] by (simp add: refs_of_def)
  have "\<forall>r\<in>set (first_seen ?c). ref_article r \<noteq> n" by (auto simp: first_seen_def)
  moreover have "distinct (first_seen ?c)" by (simp add: first_seen_def)
  ultimately show ?thesis unfolding e by blast
qed

theorem cross_references_first_seen_witness:
  "refs_of (extract_cross_references
      [\<lparr>a_number = py ''5'', a_title = py ''T'',
        a_content = py ''see Article 6(1), Article 5, Article 6 (1)'',
        a_chapter = None, a_section = None, a_paragraphs = [], a_requirements = [],
        a_entities = []\<rparr>]) (py ''5'') =
     [\<lparr>ref_article = py ''6'', ref_paragraph = Some (py ''1'')\<rparr>] \<and>
   ref_article \<lparr>ref_article = py ''6'', ref_paragraph = Some (py ''1'')\<rparr> \<noteq> py ''5''"
proof -
  let ?as = "[\<lparr>a_number = py ''5'', a_title = py ''T'',
        a_content = py ''see Article 6(1), Article 5, Article 6 (1)'',
        a_chapter = None, a_section = None, a_paragraphs = [], a_requirements = [],
        a_entities = []\<rparr>]"
  have rhs: "first_seen (filter (\<lambda>r. ref_article r \<noteq> py ''5'')
       (concat (map (\<lambda>a. references_in (a_content a)) (filter (\<lambda>a. a_number a = py ''5'') ?as)))) =
     [\<lparr>ref_article = py ''6'', ref_paragraph = Some (py ''1'')\<rparr>]"
    by (simp add: first_seen_def references_in_def article_ref_pattern_def eval_regex)
  note e = cross_references_first_seen[of ?as "py ''5''", THEN conjunct1]
  note l = trans[OF e rhs]
  have "\<lparr>ref_article = py ''6'', ref_paragraph = Some (py ''1'')\<rparr>
      \<in> set (refs_of (extract_cross_references ?as) (py ''5''))"
    by (simp only: l) simp
  from l cross_references_first_seen[of ?as "py ''5''", THEN conjunct2, THEN conjunct1,
      THEN bspec, OF this]
  show ?thesis by (rule conjI)
qed

subsection \<open>Reconstruction and export\<close>

lemmas eval_store = empty_db_def get_article_by_number_def export_articles_def export_article_def
  paragraphs_of_def subparagraphs_of_def subsubparagraphs_of_def requirements_of_def
  chapter_of_def section_of_def get_paragraph_def get_subparagraph_def get_subsubparagraph_def
  export_paragraph_def export_subparagraph_def export_subsubparagraph_def get_requirement_def
  export_requirement_def get_entity_def get_cross_references_def

lemma get_example: "get_article_by_number example_store (py ''1'') = Some example_tree"
  by (simp add: example_store_def example_tree_def eval_store)

lemma get_linked: "get_article_by_number linked_store (py ''1'') = Some linked_tree"
  by (simp add: linked_store_def linked_tree_def eval_store)

lemma erase_get_paragraph: "erase_paragraph (get_paragraph d r) = export_paragraph d r"
  by (simp add: erase_paragraph_def get_paragraph_def export_paragraph_def erase_subparagraph_def
      get_subparagraph_def export_subparagraph_def erase_subsubparagraph_def
      get_subsubparagraph_def export_subsubparagraph_def)

lemma erase_get_requirement: "erase_requirement (get_requirement r) = export_requirement r"
  by (simp add: erase_requirement_def get_requirement_def export_requirement_def)

lemma find_first_of_filter: "filter P xs = r # rs \<Longrightarrow> find P xs = Some r"
  by (induction xs) (auto split: if_splits)

lemma find_as_filter: "find P xs = (case filter P xs of [] \<Rightarrow> None | x # _ \<Rightarrow> Some x)"
  by (induction xs) simp_all

lemma find_sort_key: "find (\<lambda>x. f x = k) (sort_key f xs) = find (\<lambda>x. f x = k) xs"
  by (simp add: find_as_filter sort_key_stable)

lemma find_mapped: "find P (map g xs) = map_option g (find (\<lambda>x. P (g x)) xs)"
  by (induction xs) simp_all

lemma find_first_index:
  "i < length xs \<Longrightarrow> P (xs ! i) \<Longrightarrow> \<forall>j<i. \<not> P (xs ! j) \<Longrightarrow> find P xs = Some (xs ! i)"
  by (auto simp: find_Some_iff)

lemma get_article_erase:
  "map_option erase_article (get_article_by_number d n) =
     map_option (export_article d) (find (\<lambda>a. ar_number a = n) (t_articles d))"
  by (simp add: get_article_by_number_def erase_article_def export_article_def
      erase_get_paragraph erase_get_requirement split: option.splits)

lemma get_article_id:
  "map_option av_id (get_article_by_number d n) =
     map_option ar_id (find (\<lambda>a. ar_number a = n) (t_articles d))"
  by (simp add: get_article_by_number_def split: option.splits)

lemma filter_by_key:
  "distinct (map g xs) \<Longrightarrow>
     filter (\<lambda>x. g x = k) xs = (case find (\<lambda>x. g x = k) xs of None \<Rightarrow> [] | Some x \<Rightarrow> [x])"
proof (induction xs)
  case Nil
  then show ?case by simp
next
  case (Cons x xs)
  show ?case
  proof (cases "g x = k")
    case True
    with Cons.prems have "\<forall>y\<in>set xs. g y \<noteq> k" by (auto simp: image_iff)
    then have "filter (\<lambda>x. g x = k) xs = []" by (simp add: filter_empty_conv)
    with True show ?thesis by simp
  next
    case False
    with Cons show ?thesis by simp
  qed
qed

lemma concat_if_filter: "concat (map (\<lambda>x. if P x then [h x] else []) xs) = map h (filter P xs)"
  by (induction xs) simp_all

lemma concat_if_outer: "concat (map (\<lambda>x. if P x then F x else []) xs) = concat (map F (filter P xs))"
  by (induction xs) simp_all

lemma get_cross_references_join:
  assumes "distinct (map ar_id (t_articles d))"
  shows "get_cross_references d i =
    [\<lparr>ref_article = ar_number t, ref_paragraph = cr_to_paragraph cr\<rparr>.
       cr \<leftarrow> t_cross_references d, cr_from_article_id cr = i,
       t \<leftarrow> t_articles d, ar_id t = cr_to_article_id cr]"
proof -
  have one: "(case find (\<lambda>a. ar_id a = k) (t_articles d) of
         None \<Rightarrow> []
       | Some a \<Rightarrow> [h a]) = map h (filter (\<lambda>t. ar_id t = k) (t_articles d))" for k and h :: "article_row \<Rightarrow> reference"
    by (simp add: filter_by_key[OF assms] split: option.splits)
  show ?thesis
    unfolding get_cross_references_def one
    by (simp add: concat_if_filter concat_if_outer)
qed

text \<open>
  Claim C2, as amended. For every store and every article number \<open>n\<close>, the tree that
  \<open>get_article_by_number\<close> returns, without its identifiers, entities and cross-references,
  is the first entry of the export that is numbered \<open>n\<close>, and there is no tree exactly when
  no article row carries \<open>n\<close>. It is the tree of the first row that carries \<open>n\<close>. When
  exactly one article row carries \<open>n\<close>, it is the only export entry numbered \<open>n\<close>: same
  paragraphs, subparagraphs and sub-subparagraphs, same texts, same order.
\<close>

theorem export_matches_get:
  "map_option erase_article (get_article_by_number d n) =
     find (\<lambda>e. av_number e = n) (export_articles d) \<and>
   (get_article_by_number d n = None \<longleftrightarrow> n \<notin> ar_number ` set (t_articles d)) \<and>
   (\<forall>i<length (t_articles d).
      ar_number (t_articles d ! i) = n \<and> (\<forall>j<i. ar_number (t_articles d ! j) \<noteq> n) \<longrightarrow>
      map_option av_id (get_article_by_number d n) = Some (ar_id (t_articles d ! i)) \<and>
      map_option erase_article (get_article_by_number d n) =
        Some (export_article d (t_articles d ! i))) \<and>
   (\<forall>r. filter (\<lambda>a. ar_number a = n) (t_articles d) = [r] \<longrightarrow>
      (\<exists>t. get_article_by_number d n = Some t \<and>
           filter (\<lambda>e. av_number e = n) (export_articles d) = [erase_article t]))"
proof (intro conjI allI impI)
  have "find (\<lambda>e. av_number e = n) (export_articles d) =
      map_option (export_article d) (find (\<lambda>a. ar_number a = n) (sort_key ar_number (t_articles d)))"
    by (simp add: export_articles_def find_mapped export_article_def)
  then show "map_option erase_article (get_article_by_number d n) =
      find (\<lambda>e. av_number e = n) (export_articles d)"
    by (simp add: get_article_erase find_sort_key)
next
  show "get_article_by_number d n = None \<longleftrightarrow> n \<notin> ar_number ` set (t_articles d)"
  proof -
    have "get_article_by_number d n = None \<longleftrightarrow>
        find (\<lambda>a. ar_number a = n) (t_articles d) = None"
      by (simp add: get_article_by_number_def split: option.splits)
    then show ?thesis
      by (auto simp: find_None_iff)
  qed
next
  fix i
  assume "i < length (t_articles d)"
    and "ar_number (t_articles d ! i) = n \<and> (\<forall>j<i. ar_number (t_articles d ! j) \<noteq> n)"
  then have "find (\<lambda>a. ar_number a = n) (t_articles d) = Some (t_articles d ! i)"
    by (intro find_first_index) simp_all
  then show "map_option av_id (get_article_by_number d n) = Some (ar_id (t_articles d ! i))"
    and "map_option erase_article (get_article_by_number d n) =
        Some (export_article d (t_articles d ! i))"
    by (simp_all add: get_article_erase get_article_id)
next
  fix r
  assume u: "filter (\<lambda>a. ar_number a = n) (t_articles d) = [r]"
  from find_first_of_filter[OF u] get_article_erase[of d n] obtain t where
    t: "get_article_by_number d n = Some t" "erase_article t = export_article d r"
    by (cases "get_article_by_number d n") auto
  have "filter (\<lambda>e. av_number e = n) (export_articles d) =
      map (export_article d) (filter (\<lambda>a. ar_number a = n) (sort_key ar_number (t_articles d)))"
    by (simp add: export_articles_def filter_map comp_def export_article_def)
  also have "\<dots> = map (export_article d) (sort_key ar_number [r])"
    by (simp only: filter_sort u)
  finally show "\<exists>t. get_article_by_number d n = Some t \<and>
      filter (\<lambda>e. av_number e = n) (export_articles d) = [erase_article t]"
    using t by simp
qed

theorem export_matches_get_witness:
  "filter (\<lambda>a. ar_number a = py ''1'') (t_articles example_store) =
     [\<lparr>ar_id = 1, ar_number = py ''1'', ar_title = py ''Scope'', ar_content = py ''text'',
       ar_chapter_id = None, ar_section_id = None\<rparr>] \<and>
   get_article_by_number example_store (py ''1'') = Some example_tree \<and>
   filter (\<lambda>e. av_number e = py ''1'') (export_articles example_store) =
     [erase_article example_tree] \<and>
   0 < length (t_articles twin_store) \<and>
   ar_number (t_articles twin_store ! 0) = py ''1'' \<and>
   map_option av_id (get_article_by_number twin_store (py ''1'')) = Some 1 \<and>
   map_option erase_article (get_article_by_number twin_store (py ''1'')) =
     Some (export_article twin_store (t_articles twin_store ! 0))"
proof -
  let ?r = "\<lparr>ar_id = 1, ar_number = py ''1'', ar_title = py ''Scope'', ar_content = py ''text'',
       ar_chapter_id = None, ar_section_id = None\<rparr>"
  have u: "filter (\<lambda>a. ar_number a = py ''1'') (t_articles example_store) = [?r]"
    by (simp add: example_store_def empty_db_def)
  note th = export_matches_get[of example_store "py ''1''"]
  from th[THEN conjunct2, THEN conjunct2, THEN conjunct2, THEN spec, THEN mp, OF u] get_example
  have e: "filter (\<lambda>e. av_number e = py ''1'') (export_articles example_store) =
     [erase_article example_tree]"
    by simp
  have l: "0 < length (t_articles twin_store)"
    by (simp add: twin_store_def empty_db_def)
  have h: "ar_number (t_articles twin_store ! 0) = py ''1'' \<and>
      (\<forall>j<0. ar_number (t_articles twin_store ! j) \<noteq> py ''1'')"
    by (simp add: twin_store_def empty_db_def)
  have i: "ar_id (t_articles twin_store ! 0) = 1"
    by (simp add: twin_store_def empty_db_def)
  note tw = export_matches_get[of twin_store "py ''1''", THEN conjunct2, THEN conjunct2,
      THEN conjunct1, THEN spec, THEN mp, OF l, THEN mp, OF h]
  from tw[THEN conjunct1] i
  have a: "map_option av_id (get_article_by_number twin_store (py ''1'')) = Some 1"
    by simp
  from u get_example e l h[THEN conjunct1] a tw[THEN conjunct2]
  show ?thesis by (intro conjI)
qed

text \<open>
  With two article rows numbered \<open>1\<close> the export holds two entries for this number, and the
  second of them is not the tree \<open>get_article_by_number\<close> returns.
\<close>

theorem export_matches_get_counterexample:
  "map av_number (export_articles twin_store) = [py ''1'', py ''1''] \<and>
   map (\<lambda>e. map v1_text (av_paragraphs e)) (export_articles twin_store) =
     [[py ''old text''], [py ''new text'']] \<and>
   map_option (\<lambda>t. map v1_text (av_paragraphs t)) (get_article_by_number twin_store (py ''1'')) =
     Some [py ''old text'']"
  by (simp add: twin_store_def eval_store)

text \<open>
  Claim C4. For a known article number \<open>n\<close>, \<open>get_article_by_number\<close> returns the article
  of the first row numbered \<open>n\<close>. Its paragraphs are the paragraph rows of the article
  sorted by their number as a string, the subparagraphs of each paragraph are its rows
  sorted by letter, the sub-subparagraphs of each subparagraph its rows sorted by their
  numeral as a string. Its requirements and entities are the rows of the two tables that
  point to the article, in the order of the tables, and its cross-references are the rows
  that start at the article, each joined with the article row it points to (the
  identifiers of the article rows being distinct, as a primary key is). In the string
  order \<open>10\<close> comes before \<open>2\<close>.
\<close>

theorem get_article_ordered:
  assumes "n \<in> ar_number ` set (t_articles d)"
  shows "\<exists>a i. get_article_by_number d n = Some a \<and>
    i < length (t_articles d) \<and> ar_number (t_articles d ! i) = n \<and>
    (\<forall>j<i. ar_number (t_articles d ! j) \<noteq> n) \<and>
    av_id a = ar_id (t_articles d ! i) \<and> av_number a = n \<and>
    av_title a = ar_title (t_articles d ! i) \<and> av_content a = ar_content (t_articles d ! i) \<and>
    sorted (map v1_number (av_paragraphs a)) \<and>
    mset (map (\<lambda>v. (v1_id v, v1_number v, v1_text v)) (av_paragraphs a)) =
      mset (map (\<lambda>r. (pa_id r, pa_number r, pa_text r))
             (filter (\<lambda>r. pa_article_id r = av_id a) (t_paragraphs d))) \<and>
    (\<forall>p\<in>set (av_paragraphs a).
       sorted (map v2_letter (v1_subparagraphs p)) \<and>
       mset (map (\<lambda>v. (v2_id v, v2_letter v, v2_text v)) (v1_subparagraphs p)) =
         mset (map (\<lambda>r. (sb_id r, sb_letter r, sb_text r))
                (filter (\<lambda>r. sb_paragraph_id r = v1_id p) (t_subparagraphs d))) \<and>
       (\<forall>s\<in>set (v1_subparagraphs p).
          sorted (map v3_number (v2_subsubparagraphs s)) \<and>
          mset (map (\<lambda>v. (v3_id v, v3_number v, v3_text v)) (v2_subsubparagraphs s)) =
            mset (map (\<lambda>r. (ss_id r, ss_number r, ss_text r))
                   (filter (\<lambda>r. ss_subparagraph_id r = v2_id s) (t_subsubparagraphs d))))) \<and>
    map (\<lambda>v. (vr_id v, vr_text v, vr_is_obligation v, vr_is_right v, vr_is_time_requirement v))
        (av_requirements a) =
      map (\<lambda>r. (rr_id r, rr_text r, rr_is_obligation r, rr_is_right r, rr_is_time_requirement r))
        (filter (\<lambda>r. rr_article_id r = av_id a) (t_requirements d)) \<and>
    map (\<lambda>(k, e). (k, en_text e, en_label e, en_start e, en_end e)) (fst (av_extras a)) =
      map (\<lambda>r. (er_id r, er_text r, er_label r, er_start_pos r, er_end_pos r))
        (filter (\<lambda>r. er_article_id r = av_id a) (t_entities d)) \<and>
    (distinct (map ar_id (t_articles d)) \<longrightarrow>
       snd (av_extras a) =
         [\<lparr>ref_article = ar_number t, ref_paragraph = cr_to_paragraph cr\<rparr>.
            cr \<leftarrow> t_cross_references d, cr_from_article_id cr = av_id a,
            t \<leftarrow> t_articles d, ar_id t = cr_to_article_id cr])"
proof -
  from assms have "find (\<lambda>a. ar_number a = n) (t_articles d) \<noteq> None"
    by (auto simp: find_None_iff)
  then obtain r where f: "find (\<lambda>a. ar_number a = n) (t_articles d) = Some r"
    by auto
  then obtain i where i: "i < length (t_articles d)" "ar_number (t_articles d ! i) = n"
      "r = t_articles d ! i" "\<forall>j<i. ar_number (t_articles d ! j) \<noteq> n"
    by (auto simp: find_Some_iff)
  define a where "a = \<lparr>av_id = ar_id r, av_number = ar_number r, av_title = ar_title r,
                av_content = ar_content r,
                av_chapter = chapter_of d (ar_chapter_id r),
                av_section = section_of d (ar_section_id r),
                av_paragraphs = map (get_paragraph d) (paragraphs_of d (ar_id r)),
                av_requirements = map get_requirement (requirements_of d (ar_id r)),
                av_extras =
                  (map get_entity (filter (\<lambda>e. er_article_id e = ar_id r) (t_entities d)),
                   get_cross_references d (ar_id r))\<rparr>"
  from f have g: "get_article_by_number d n = Some a"
    by (simp add: get_article_by_number_def a_def)
  have s3: "sorted (map v3_number (map get_subsubparagraph (subsubparagraphs_of d k)))" for k
    by (simp add: comp_def get_subsubparagraph_def subsubparagraphs_of_def)
  have m3: "mset (map (\<lambda>v. (v3_id v, v3_number v, v3_text v))
        (map get_subsubparagraph (subsubparagraphs_of d k))) =
      mset (map (\<lambda>r. (ss_id r, ss_number r, ss_text r))
        (filter (\<lambda>r. ss_subparagraph_id r = k) (t_subsubparagraphs d)))" for k
    by (simp add: comp_def get_subsubparagraph_def subsubparagraphs_of_def)
  have s2: "sorted (map v2_letter (map (get_subparagraph d) (subparagraphs_of d k)))" for k
    by (simp add: comp_def get_subparagraph_def subparagraphs_of_def)
  have m2: "mset (map (\<lambda>v. (v2_id v, v2_letter v, v2_text v))
        (map (get_subparagraph d) (subparagraphs_of d k))) =
      mset (map (\<lambda>r. (sb_id r, sb_letter r, sb_text r))
        (filter (\<lambda>r. sb_paragraph_id r = k) (t_subparagraphs d)))" for k
    by (simp add: comp_def get_subparagraph_def subparagraphs_of_def)
  have s1: "sorted (map v1_number (map (get_paragraph d) (paragraphs_of d k)))" for k
    by (simp add: comp_def get_paragraph_def paragraphs_of_def)
  have m1: "mset (map (\<lambda>v. (v1_id v, v1_number v, v1_text v))
        (map (get_paragraph d) (paragraphs_of d k))) =
      mset (map (\<lambda>r. (pa_id r, pa_number r, pa_text r))
        (filter (\<lambda>r. pa_article_id r = k) (t_paragraphs d)))" for k
    by (simp add: comp_def get_paragraph_def paragraphs_of_def)
  have sub: "sorted (map v3_number (v2_subsubparagraphs s)) \<and>
          mset (map (\<lambda>v. (v3_id v, v3_number v, v3_text v)) (v2_subsubparagraphs s)) =
            mset (map (\<lambda>r. (ss_id r, ss_number r, ss_text r))
                   (filter (\<lambda>r. ss_subparagraph_id r = v2_id s) (t_subsubparagraphs d)))"
    if "s \<in> set (map (get_subparagraph d) rows)" for s rows
  proof -
    from that obtain r where s: "s = get_subparagraph d r" by auto
    have sel: "v2_subsubparagraphs (get_subparagraph d r) =
        map get_subsubparagraph (subsubparagraphs_of d (sb_id r))"
      "v2_id (get_subparagraph d r) = sb_id r"
      by (simp_all add: get_subparagraph_def)
    show ?thesis unfolding s sel by (rule conjI[OF s3 m3])
  qed
  have par: "sorted (map v2_letter (v1_subparagraphs p)) \<and>
       mset (map (\<lambda>v. (v2_id v, v2_letter v, v2_text v)) (v1_subparagraphs p)) =
         mset (map (\<lambda>r. (sb_id r, sb_letter r, sb_text r))
                (filter (\<lambda>r. sb_paragraph_id r = v1_id p) (t_subparagraphs d))) \<and>
       (\<forall>s\<in>set (v1_subparagraphs p).
          sorted (map v3_number (v2_subsubparagraphs s)) \<and>
          mset (map (\<lambda>v. (v3_id v, v3_number v, v3_text v)) (v2_subsubparagraphs s)) =
            mset (map (\<lambda>r. (ss_id r, ss_number r, ss_text r))
                   (filter (\<lambda>r. ss_subparagraph_id r = v2_id s) (t_subsubparagraphs d))))"
    if "p \<in> set (map (get_paragraph d) rows)" for p rows
  proof -
    from that obtain r where p: "p = get_paragraph d r" by auto
    have sel: "v1_subparagraphs (get_paragraph d r) =
        map (get_subparagraph d) (subparagraphs_of d (pa_id r))"
      "v1_id (get_paragraph d r) = pa_id r"
      by (simp_all add: get_paragraph_def)
    show ?thesis
      unfolding p sel using sub[of _ "subparagraphs_of d (pa_id r)"]
      by (intro conjI s2 m2) blast
  qed
  have sel: "av_number a = ar_number r" "av_id a = ar_id r"
    "av_title a = ar_title r" "av_content a = ar_content r"
    "av_paragraphs a = map (get_paragraph d) (paragraphs_of d (ar_id r))"
    "av_requirements a = map get_requirement (requirements_of d (ar_id r))"
    "fst (av_extras a) = map get_entity (filter (\<lambda>e. er_article_id e = ar_id r) (t_entities d))"
    "snd (av_extras a) = get_cross_references d (ar_id r)"
    unfolding a_def by simp_all
  have rq: "map (\<lambda>v. (vr_id v, vr_text v, vr_is_obligation v, vr_is_right v, vr_is_time_requirement v))
        (map get_requirement (requirements_of d k)) =
      map (\<lambda>r. (rr_id r, rr_text r, rr_is_obligation r, rr_is_right r, rr_is_time_requirement r))
        (filter (\<lambda>r. rr_article_id r = k) (t_requirements d))" for k
    by (simp add: requirements_of_def get_requirement_def comp_def)
  have en: "map (\<lambda>(k, e). (k, en_text e, en_label e, en_start e, en_end e))
        (map get_entity (filter (\<lambda>e. er_article_id e = k) (t_entities d))) =
      map (\<lambda>r. (er_id r, er_text r, er_label r, er_start_pos r, er_end_pos r))
        (filter (\<lambda>r. er_article_id r = k) (t_entities d))" for k
    by (simp add: get_entity_def comp_def)
  have "i < length (t_articles d) \<and> ar_number (t_articles d ! i) = n \<and>
    (\<forall>j<i. ar_number (t_articles d ! j) \<noteq> n) \<and>
    av_id a = ar_id (t_articles d ! i) \<and> av_number a = n \<and>
    av_title a = ar_title (t_articles d ! i) \<and> av_content a = ar_content (t_articles d ! i)"
    using i by (simp add: sel)
  moreover have "sorted (map v1_number (av_paragraphs a))"
    unfolding sel by (rule s1)
  moreover have "mset (map (\<lambda>v. (v1_id v, v1_number v, v1_text v)) (av_paragraphs a)) =
      mset (map (\<lambda>r. (pa_id r, pa_number r, pa_text r))
             (filter (\<lambda>r. pa_article_id r = av_id a) (t_paragraphs d)))"
    unfolding sel by (rule m1)
  moreover have "\<forall>p\<in>set (av_paragraphs a).
       sorted (map v2_letter (v1_subparagraphs p)) \<and>
       mset (map (\<lambda>v. (v2_id v, v2_letter v, v2_text v)) (v1_subparagraphs p)) =
         mset (map (\<lambda>r. (sb_id r, sb_letter r, sb_text r))
                (filter (\<lambda>r. sb_paragraph_id r = v1_id p) (t_subparagraphs d))) \<and>
       (\<forall>s\<in>set (v1_subparagraphs p).
          sorted (map v3_number (v2_subsubparagraphs s)) \<and>
          mset (map (\<lambda>v. (v3_id v, v3_number v, v3_text v)) (v2_subsubparagraphs s)) =
            mset (map (\<lambda>r. (ss_id r, ss_number r, ss_text r))
                   (filter (\<lambda>r. ss_subparagraph_id r = v2_id s) (t_subsubparagraphs d))))"
    unfolding sel using par[of _ "paragraphs_of d (ar_id r)"] by blast
  moreover have "map (\<lambda>v. (vr_id v, vr_text v, vr_is_obligation v, vr_is_right v, vr_is_time_requirement v))
        (av_requirements a) =
      map (\<lambda>r. (rr_id r, rr_text r, rr_is_obligation r, rr_is_right r, rr_is_time_requirement r))
        (filter (\<lambda>r. rr_article_id r = av_id a) (t_requirements d))"
    unfolding sel by (rule rq)
  moreover have "map (\<lambda>(k, e). (k, en_text e, en_label e, en_start e, en_end e)) (fst (av_extras a)) =
      map (\<lambda>r. (er_id r, er_text r, er_label r, er_start_pos r, er_end_pos r))
        (filter (\<lambda>r. er_article_id r = av_id a) (t_entities d))"
    unfolding sel by (rule en)
  moreover have "distinct (map ar_id (t_articles d)) \<longrightarrow>
       snd (av_extras a) =
         [\<lparr>ref_article = ar_number t, ref_paragraph = cr_to_paragraph cr\<rparr>.
            cr \<leftarrow> t_cross_references d, cr_from_article_id cr = av_id a,
            t \<leftarrow> t_articles d, ar_id t = cr_to_article_id cr]"
    unfolding sel using get_cross_references_join by blast
  ultimately show ?thesis
    using g by blast
qed

theorem get_article_ordered_witness:
  "py ''1'' \<in> ar_number ` set (t_articles linked_store) \<and>
   distinct (map ar_id (t_articles linked_store)) \<and>
   get_article_by_number linked_store (py ''1'') = Some linked_tree \<and>
   map v1_number (av_paragraphs linked_tree) = [py ''10'', py ''2''] \<and>
   sorted (map v1_number (av_paragraphs linked_tree)) \<and>
   snd (av_extras linked_tree) =
     [\<lparr>ref_article = ar_number t, ref_paragraph = cr_to_paragraph cr\<rparr>.
        cr \<leftarrow> t_cross_references linked_store, cr_from_article_id cr = av_id linked_tree,
        t \<leftarrow> t_articles linked_store, ar_id t = cr_to_article_id cr] \<and>
   snd (av_extras linked_tree) = [\<lparr>ref_article = py ''2'', ref_paragraph = Some (py ''3'')\<rparr>]"
proof -
  have k: "py ''1'' \<in> ar_number ` set (t_articles linked_store)"
    by (simp add: linked_store_def empty_db_def)
  have u: "distinct (map ar_id (t_articles linked_store))"
    by (simp add: linked_store_def empty_db_def)
  have p: "map v1_number (av_paragraphs linked_tree) = [py ''10'', py ''2'']"
    by (simp add: linked_tree_def)
  have x: "snd (av_extras linked_tree) = [\<lparr>ref_article = py ''2'', ref_paragraph = Some (py ''3'')\<rparr>]"
    by (simp add: linked_tree_def)
  from get_article_ordered[OF k] obtain a where
    a: "get_article_by_number linked_store (py ''1'') = Some a"
    and s: "sorted (map v1_number (av_paragraphs a))"
    and c: "distinct (map ar_id (t_articles linked_store)) \<longrightarrow>
       snd (av_extras a) =
         [\<lparr>ref_article = ar_number t, ref_paragraph = cr_to_paragraph cr\<rparr>.
            cr \<leftarrow> t_cross_references linked_store, cr_from_article_id cr = av_id a,
            t \<leftarrow> t_articles linked_store, ar_id t = cr_to_article_id cr]"
    by blast
  from a get_linked have e: "a = linked_tree" by simp
  from k u get_linked p s[unfolded e] c[unfolded e, THEN mp, OF u] x
  show ?thesis by (intro conjI)
qed

subsection \<open>The search snippet\<close>













subsection \<open>Population of the store\<close>

lemma plus_rows_left [simp]: "plus_rows no_rows x = x"
  by (simp add: plus_rows_def no_rows_def)

lemma plus_rows_right [simp]: "plus_rows x no_rows = x"
  by (simp add: plus_rows_def no_rows_def)













































end
